theory Spec2Isabelle
  imports Main "HOL-Library.Word"
begin

unbundle bit_operations_syntax

section \<open>The OpenAI agent of AIPlaysPokemon (src/agent/openai_agent.py)\<close>

text \<open>
  The agent observes an emulator (a frame and a textual state), asks a chat
  completion service what to do, dispatches the tool calls of the answer to
  the emulator, and keeps a bounded transcript that is replaced by a summary
  when it reaches \<open>max_history\<close> turns.

  The emulator (\<open>agent.emulator.Emulator\<close>), the chat client (\<open>openai.OpenAI\<close>),
  the JSON decoder (\<open>json.loads\<close>) and the imaging library (\<open>resize\<close>, \<open>save\<close>)
  are not code of this module. Each is a field of the record \<open>env\<close>. An
  emulator or client operation answers with a value or raises, and its answer
  may depend on everything that has happened so far: it is a function of the
  trace, the list of all earlier calls. Every theorem below holds for every such
  environment. Logging (\<open>logger.info\<close>, \<open>logger.error\<close>) has no effect on the
  agent and is left out.
\<close>

subsection \<open>Python values\<close>

text \<open>
  Exceptions. \<open>KeyboardInterrupt\<close> and \<open>SystemExit\<close> derive from
  \<open>BaseException\<close> only; the others are subclasses of \<open>Exception\<close>, so
  \<open>except Exception\<close> catches exactly those. Each carries the text \<open>str(e)\<close>.
\<close>

datatype py_exn =
    KeyboardInterrupt
  | SystemExit
  | IndexError string
  | AttributeError string
  | TypeError string
  | Exception string

fun is_Exception :: "py_exn \<Rightarrow> bool" where
  "is_Exception KeyboardInterrupt = False"
| "is_Exception SystemExit = False"
| "is_Exception (IndexError m) = True"
| "is_Exception (AttributeError m) = True"
| "is_Exception (TypeError m) = True"
| "is_Exception (Exception m) = True"

fun str_exn :: "py_exn \<Rightarrow> string" where
  "str_exn KeyboardInterrupt = []"
| "str_exn SystemExit = []"
| "str_exn (IndexError m) = m"
| "str_exn (AttributeError m) = m"
| "str_exn (TypeError m) = m"
| "str_exn (Exception m) = m"

text \<open>
  What \<open>json.loads\<close> returns. An object is a Python \<open>dict\<close>, kept as an
  association list; a float keeps its literal.
\<close>

datatype json =
    JNull
  | JBool bool
  | JInt int
  | JFloat string
  | JString string
  | JArray "json list"
  | JObject "(string \<times> json) list"

fun type_name :: "json \<Rightarrow> string" where
  "type_name JNull = ''NoneType''"
| "type_name (JBool b) = ''bool''"
| "type_name (JInt i) = ''int''"
| "type_name (JFloat f) = ''float''"
| "type_name (JString s) = ''str''"
| "type_name (JArray xs) = ''list''"
| "type_name (JObject kvs) = ''dict''"

text \<open>
  \<open>arguments.get(key, default)\<close>: defined on a \<open>dict\<close> only. On any other
  value the attribute lookup raises \<open>AttributeError\<close>.
\<close>

definition arguments_get :: "json \<Rightarrow> string \<Rightarrow> json \<Rightarrow> py_exn + json" where
  "arguments_get arguments key dflt =
     (case arguments of
        JObject kvs \<Rightarrow> Inr (case map_of kvs key of None \<Rightarrow> dflt | Some v \<Rightarrow> v)
      | _ \<Rightarrow> Inl (AttributeError
                 ([CHR 0x27] @ type_name arguments @ [CHR 0x27] @ '' object has no attribute '' @
                  [CHR 0x27] @ ''get'' @ [CHR 0x27])))"

text \<open>\<open>str(n)\<close> for an integer.\<close>

definition digit_char :: "nat \<Rightarrow> char" where
  "digit_char d = ''0123456789'' ! (d mod 10)"

function show_nat :: "nat \<Rightarrow> string" where
  "show_nat n = (if n < 10 then [digit_char n] else show_nat (n div 10) @ [digit_char (n mod 10)])"
  by pat_completeness auto
termination
  by (relation "measure id") auto

declare show_nat.simps [simp del]

definition show_int :: "int \<Rightarrow> string" where
  "show_int i = (if i < 0 then ''-'' @ show_nat (nat (- i)) else show_nat (nat i))"

text \<open>\<open>sep.join(parts)\<close> on a list of strings.\<close>

fun join :: "string \<Rightarrow> string list \<Rightarrow> string" where
  "join sep [] = []"
| "join sep [x] = x"
| "join sep (x # y # ys) = x @ sep @ join sep (y # ys)"

text \<open>
  \<open>', '.join(buttons)\<close> where \<open>buttons\<close> is whatever the decoded arguments
  held: a list is joined when all its items are strings, a string is joined
  character by character, a dictionary by its keys; anything else is not
  iterable. The first item that is not a string raises \<open>TypeError\<close>.
\<close>

fun join_items :: "nat \<Rightarrow> json list \<Rightarrow> py_exn + string list" where
  "join_items i [] = Inr []"
| "join_items i (JString s # xs) =
     (case join_items (Suc i) xs of Inl e \<Rightarrow> Inl e | Inr ss \<Rightarrow> Inr (s # ss))"
| "join_items i (x # xs) =
     Inl (TypeError (''sequence item '' @ show_nat i @ '': expected str instance, '' @
                     type_name x @ '' found''))"

fun join_json :: "string \<Rightarrow> json \<Rightarrow> py_exn + string" where
  "join_json sep (JArray xs) =
     (case join_items 0 xs of Inl e \<Rightarrow> Inl e | Inr ss \<Rightarrow> Inr (join sep ss))"
| "join_json sep (JString s) = Inr (join sep (map (\<lambda>c. [c]) s))"
| "join_json sep (JObject kvs) = Inr (join sep (map fst kvs))"
| "join_json sep v = Inl (TypeError ''can only join an iterable'')"

subsection \<open>Frames and their encoding\<close>

text \<open>
  A frame is a PIL image object. Image objects live in a store, addressed by
  an object id: \<open>screenshot.resize(size)\<close> returns a new object and leaves
  the one it is called on as it was.
\<close>

record image =
  width :: int
  height :: int
  pixels :: "8 word list"

definition b64_alphabet :: string where
  "b64_alphabet = ''ABCDEFGHIJKLMNOPQRSTUVWXYZabcdefghijklmnopqrstuvwxyz0123456789+/''"

definition b64_char :: "8 word \<Rightarrow> char" where
  "b64_char w = b64_alphabet ! unat (w AND 63)"

text \<open>\<open>base64.standard_b64encode\<close>: three bytes become four characters, padded with \<open>=\<close>.\<close>

fun standard_b64encode :: "8 word list \<Rightarrow> string" where
  "standard_b64encode [] = []"
| "standard_b64encode [a] =
     [b64_char (drop_bit 2 a), b64_char (push_bit 4 (a AND 3)), CHR ''='', CHR ''='']"
| "standard_b64encode [a, b] =
     [b64_char (drop_bit 2 a), b64_char (push_bit 4 (a AND 3) OR drop_bit 4 b),
      b64_char (push_bit 2 (b AND 15)), CHR ''='']"
| "standard_b64encode (a # b # c # rest) =
     [b64_char (drop_bit 2 a), b64_char (push_bit 4 (a AND 3) OR drop_bit 4 b),
      b64_char (push_bit 2 (b AND 15) OR drop_bit 6 c), b64_char (c AND 63)]
     @ standard_b64encode rest"

subsection \<open>The transcript and the chat service\<close>

text \<open>
  A turn of \<open>message_history\<close> is a dictionary with a role and a content; a
  content is a string or a list of parts (a text part or an image part, whose
  value is a data URI).
\<close>

datatype role = System | User | Assistant

datatype part = TextPart string | ImageUrlPart string

datatype content = Str string | Parts "part list"

datatype turn = Turn (role: role) (content: content)

text \<open>
  The answer of \<open>client.chat.completions.create\<close>: a list of choices, each a
  message with an optional content and optional tool calls. A tool call is a
  function name and the raw text of its arguments.
\<close>

datatype tool_call = ToolCall (function_name: string) (function_arguments: string)

datatype chat_message =
  ChatMessage (message_content: "content option") (message_tool_calls: "tool_call list option")

datatype chat_response = ChatResponse (choices: "chat_message list")

subsection \<open>The trace, the environment and the state\<close>

text \<open>
  The trace records, in program order, every call of an emulator or client
  operation with its arguments, and every write to \<open>message_history\<close>.
  \<open>ChatCompletionsCreate\<close> holds the messages of the request and the names of
  the tools sent with it (\<open>None\<close> for a request without tools).
\<close>

datatype event =
    EmulatorNew string bool bool
  | Initialize
  | LoadState string
  | GetScreenshot
  | GetStateFromMemory
  | GetLocation
  | GetActiveDialog
  | GetCollisionMap
  | PressButtons json json
  | FindPath json json
  | Stop
  | OpenAINew
  | ChatCompletionsCreate "turn list" "string list option"
  | HistoryAppend turn
  | HistoryAssign "turn list"

record env =
  USE_NAVIGATOR :: bool
  json_loads :: "string \<Rightarrow> json option"
  str_parts :: "part list \<Rightarrow> string"
  image_resize :: "image \<Rightarrow> int \<times> int \<Rightarrow> image"
  image_save_png :: "image \<Rightarrow> 8 word list"
  emulator_new :: "event list \<Rightarrow> py_exn + unit"
  emulator_initialize :: "event list \<Rightarrow> py_exn + unit"
  emulator_load_state :: "event list \<Rightarrow> string \<Rightarrow> py_exn + unit"
  emulator_get_screenshot :: "event list \<Rightarrow> py_exn + image"
  emulator_get_state_from_memory :: "event list \<Rightarrow> py_exn + string"
  emulator_get_location :: "event list \<Rightarrow> py_exn + string option"
  emulator_get_active_dialog :: "event list \<Rightarrow> py_exn + string option"
  emulator_get_collision_map :: "event list \<Rightarrow> py_exn + string option"
  emulator_press_buttons :: "event list \<Rightarrow> json \<Rightarrow> json \<Rightarrow> py_exn + unit"
  emulator_find_path :: "event list \<Rightarrow> json \<Rightarrow> json \<Rightarrow> py_exn + string \<times> string list option"
  emulator_stop :: "event list \<Rightarrow> py_exn + unit"
  openai_new :: "event list \<Rightarrow> py_exn + unit"
  chat_completions_create ::
    "event list \<Rightarrow> turn list \<Rightarrow> string list option \<Rightarrow> py_exn + chat_response"

text \<open>
  \<open>USE_NAVIGATOR\<close> is the flag of \<open>config.py\<close> (not among the sources), taken
  as a parameter; the model name, the temperature and the token limit of the
  same file do not influence the agent's control flow and are left out.
  \<open>json_loads\<close> answers \<open>None\<close> where \<open>json.loads\<close> raises
  \<open>JSONDecodeError\<close>. \<open>str_parts\<close> is Python's formatting of a list of
  parts inside an f-string.

  The state: the fields of the agent (\<open>message_history\<close>, \<open>max_history\<close>,
  \<open>running\<close>), the trace, and the store of image objects with the next free
  object id.
\<close>

record state =
  message_history :: "turn list"
  max_history :: int
  running :: bool
  trace :: "event list"
  store :: "nat \<Rightarrow> image"
  next_id :: nat

text \<open>
  A statement of the program takes the state and returns a value or an
  exception, and the state it leaves behind. \<open>and_then\<close> sequences two
  statements: an exception of the first skips the second.
\<close>

type_synonym 'a action = "state \<Rightarrow> (py_exn + 'a) \<times> state"

definition returns :: "'a \<Rightarrow> 'a action" where
  "returns x s = (Inr x, s)"

definition lift :: "py_exn + 'a \<Rightarrow> 'a action" where
  "lift r s = (r, s)"

definition and_then :: "'a action \<Rightarrow> ('a \<Rightarrow> 'b action) \<Rightarrow> 'b action" where
  "and_then m f s = (case m s of (Inl e, s') \<Rightarrow> (Inl e, s') | (Inr x, s') \<Rightarrow> f x s')"

text \<open>
  \<open>try: body except Exception as e: handler\<close>. An exception that is not an
  \<open>Exception\<close> passes through.
\<close>

definition try_except_Exception :: "'a action \<Rightarrow> (py_exn \<Rightarrow> 'a action) \<Rightarrow> 'a action" where
  "try_except_Exception body handler s =
     (case body s of
        (Inl e, s') \<Rightarrow> if is_Exception e then handler e s' else (Inl e, s')
      | (Inr x, s') \<Rightarrow> (Inr x, s'))"

text \<open>A call of an emulator or client operation: the call is recorded, whatever it answers.\<close>

definition call :: "event \<Rightarrow> (event list \<Rightarrow> py_exn + 'a) \<Rightarrow> 'a action" where
  "call ev answer s = (answer (trace s), s\<lparr>trace := trace s @ [ev]\<rparr>)"

definition new_image :: "image \<Rightarrow> nat action" where
  "new_image img s =
     (Inr (next_id s), s\<lparr>store := (store s)(next_id s := img), next_id := Suc (next_id s)\<rparr>)"

definition get_screenshot :: "env \<Rightarrow> nat action" where
  "get_screenshot env = and_then (call GetScreenshot (emulator_get_screenshot env)) new_image"

definition history_append :: "turn \<Rightarrow> unit action" where
  "history_append t s =
     (Inr (), s\<lparr>message_history := message_history s @ [t], trace := trace s @ [HistoryAppend t]\<rparr>)"

definition history_assign :: "turn list \<Rightarrow> unit action" where
  "history_assign ts s =
     (Inr (), s\<lparr>message_history := ts, trace := trace s @ [HistoryAssign ts]\<rparr>)"

subsection \<open>get_screenshot_base64\<close>

text \<open>
  \<open>screenshot\<close> is the object id of the frame. For an upscale factor above 1
  the local name is rebound to a resized copy; the copy is saved as PNG into a
  fresh buffer, and the buffer's bytes are encoded.
\<close>

definition get_screenshot_base64 :: "env \<Rightarrow> nat \<Rightarrow> int \<Rightarrow> string action" where
  "get_screenshot_base64 env screenshot upscale =
     and_then
       (if upscale > 1
        then (\<lambda>s. new_image
                (image_resize env (store s screenshot)
                   (width (store s screenshot) * upscale, height (store s screenshot) * upscale)) s)
        else returns screenshot)
       (\<lambda>screenshot s. (Inr (standard_b64encode (image_save_png env (store s screenshot))), s))"

subsection \<open>The prompts and the tools\<close>

definition SYSTEM_PROMPT :: string where
  "SYSTEM_PROMPT =
     ''You are playing Pokemon Red. You can see the game screen and control '' @
     ''the game by executing emulator commands.\<newline>\<newline>Your goal is to play through '' @
     ''Pokemon Red and eventually defeat the Elite Four. Make decisions '' @
     ''based on what you see on the screen and the memory-based game state '' @
     ''description.\<newline>\<newline>At the very beginning of the game, you may see boot '' @
     ''or title/intro screens. In those cases, you often need to press '' @
     ''START and/or A multiple times to get to a playable state (the main '' @
     ''game where you can move the character around). If the game appears '' @
     ''idle or you are not yet in control of the player, try pressing START '' @
     ''or A to proceed.\<newline>\<newline>Before each action, explain your reasoning briefly, '' @
     ''then use the available tools to execute your chosen commands.\<newline>\<newline>The '' @
     ''conversation history may occasionally be summarized to save context '' @
     ''space. If you see a message labeled \"CONVERSATION HISTORY SUMMARY\", '' @
     ''this contains the key information about your progress so far. Use '' @
     ''this information to maintain continuity in your gameplay.''"

definition SUMMARY_PROMPT :: string where
  "SUMMARY_PROMPT =
     ''I need you to create a detailed summary of our conversation history '' @
     ''up to this point. This summary will replace the full conversation '' @
     ''history to manage the context window.\<newline>\<newline>Please include:\<newline>1. Key game '' @
     ''events and milestones you've reached\<newline>2. Important decisions you've '' @
     ''made\<newline>3. Current objectives or goals you're working toward\<newline>4. Your '' @
     ''current location and Pok'' @
     [CHR 0xC3, CHR 0xA9] @
     ''mon team status\<newline>5. Any strategies or plans you've mentioned\<newline>\<newline>The '' @
     ''summary should be comprehensive enough that you can continue gameplay '' @
     ''without losing important context about what has happened so far.''"

text \<open>
  \<open>AVAILABLE_TOOLS\<close>, by the names of the tools: \<open>navigate_to\<close> is offered
  only under \<open>USE_NAVIGATOR\<close>. \<open>_openai_tools\<close> wraps each entry for the
  request and keeps the names.
\<close>

definition AVAILABLE_TOOLS :: "env \<Rightarrow> string list" where
  "AVAILABLE_TOOLS env =
     [''press_buttons''] @ (if USE_NAVIGATOR env then [''navigate_to''] else [])"

definition openai_tools :: "env \<Rightarrow> string list" where
  "openai_tools env = map (\<lambda>tool. tool) (AVAILABLE_TOOLS env)"

subsection \<open>Python's \<open>or\<close>, indexing and formatting\<close>

definition or_else :: "string option \<Rightarrow> string \<Rightarrow> string" where
  "or_else x d = (case x of None \<Rightarrow> d | Some v \<Rightarrow> if v = [] then d else v)"

fun content_or_empty :: "content option \<Rightarrow> content" where
  "content_or_empty None = Str []"
| "content_or_empty (Some (Str t)) = Str t"
| "content_or_empty (Some (Parts ps)) = (if ps = [] then Str [] else Parts ps)"

fun format_content :: "env \<Rightarrow> content \<Rightarrow> string" where
  "format_content env (Str t) = t"
| "format_content env (Parts ps) = str_parts env ps"

definition first_choice :: "chat_response \<Rightarrow> py_exn + chat_message" where
  "first_choice response =
     (case choices response of
        [] \<Rightarrow> Inl (IndexError ''list index out of range'')
      | message # _ \<Rightarrow> Inr message)"

definition data_uri :: "string \<Rightarrow> string" where
  "data_uri screenshot_b64 = ''data:image/png;base64,'' @ screenshot_b64"

subsection \<open>_process_tool_call\<close>

text \<open>
  The raw arguments are decoded first; a decode error is replaced by the empty
  dictionary.
\<close>

definition decode_arguments :: "env \<Rightarrow> tool_call \<Rightarrow> json" where
  "decode_arguments env tool_call =
     (case json_loads env
             (if function_arguments tool_call = [] then ''{}'' else function_arguments tool_call) of
        None \<Rightarrow> JObject []
      | Some arguments \<Rightarrow> arguments)"

text \<open>The body of the \<open>try\<close> of the \<open>press_buttons\<close> branch (lines 147 to 174).\<close>

definition press_buttons_body :: "env \<Rightarrow> json \<Rightarrow> json \<Rightarrow> string action" where
  "press_buttons_body env buttons wait =
     and_then (call (PressButtons buttons wait) (\<lambda>tr. emulator_press_buttons env tr buttons wait))
       (\<lambda>result.
     and_then (call GetStateFromMemory (emulator_get_state_from_memory env)) (\<lambda>memory_info.
     and_then (call GetLocation (emulator_get_location env)) (\<lambda>location.
     and_then (call GetActiveDialog (emulator_get_active_dialog env)) (\<lambda>dialog.
     and_then (call GetCollisionMap (emulator_get_collision_map env)) (\<lambda>collision_map.
     and_then (lift (join_json '', '' buttons)) (\<lambda>pressed.
     returns
       (join ''\<newline>''
          ([''Action: Pressed buttons: '' @ pressed,
            ''Location: '' @ or_else location ''Unknown location'']
           @ (if or_else dialog [] \<noteq> [] then [''Dialog: '' @ or_else dialog []] else [])
           @ [''Game State:\<newline>'' @ memory_info]))))))))"

text \<open>\<open>for direction in path: self.emulator.press_buttons([direction], True)\<close>\<close>

fun follow_path :: "env \<Rightarrow> string list \<Rightarrow> unit action" where
  "follow_path env [] s = (Inr (), s)"
| "follow_path env (direction # path) s =
     (case call (PressButtons (JArray [JString direction]) (JBool True))
             (\<lambda>tr. emulator_press_buttons env tr (JArray [JString direction]) (JBool True)) s of
        (Inl e, s') \<Rightarrow> (Inl e, s')
      | (Inr result, s') \<Rightarrow> follow_path env path s')"

text \<open>
  The \<open>navigate_to\<close> branch after the path solver has answered: a path that is
  \<open>None\<close> or empty is no path.
\<close>

definition navigate_result :: "env \<Rightarrow> string \<Rightarrow> string list option \<Rightarrow> string action" where
  "navigate_result env status path =
     (case path of
        Some (direction # rest) \<Rightarrow>
          and_then (follow_path env (direction # rest)) (\<lambda>u.
          returns (''Navigation successful: followed path with '' @
                   show_nat (length (direction # rest)) @ '' steps. Status: '' @ status))
      | _ \<Rightarrow> returns (''Navigation failed: '' @ status))"

definition process_tool_call :: "env \<Rightarrow> tool_call \<Rightarrow> string action" where
  "process_tool_call env tool_call =
     (let name = function_name tool_call;
          arguments = decode_arguments env tool_call
      in
      if name = ''press_buttons'' then
        and_then (lift (arguments_get arguments ''buttons'' (JArray []))) (\<lambda>buttons.
        and_then (lift (arguments_get arguments ''wait'' (JBool True))) (\<lambda>wait.
        try_except_Exception (press_buttons_body env buttons wait)
          (\<lambda>e. returns (''Error processing button press: '' @ str_exn e))))
      else if name = ''navigate_to'' then
        and_then (lift (arguments_get arguments ''row'' JNull)) (\<lambda>row.
        and_then (lift (arguments_get arguments ''col'' JNull)) (\<lambda>col.
        and_then (call (FindPath row col) (\<lambda>tr. emulator_find_path env tr row col))
          (\<lambda>(status, path).
        and_then (navigate_result env status path) (\<lambda>result.
        and_then (get_screenshot env) (\<lambda>screenshot.
        and_then (get_screenshot_base64 env screenshot 2) (\<lambda>unused.
        and_then (call GetStateFromMemory (emulator_get_state_from_memory env)) (\<lambda>memory_info.
        and_then (call GetCollisionMap (emulator_get_collision_map env)) (\<lambda>collision_map.
        returns (''Navigation result: '' @ result @ ''\<newline>\<newline>'' @
                 ''Game state after navigation:\<newline>'' @ memory_info)))))))))
      else returns (''Error: Unknown tool '' @ [CHR 0x27] @ name @ [CHR 0x27]))"

subsection \<open>summarize_history\<close>

definition CONTINUE_TEXT :: string where
  "CONTINUE_TEXT =
     ''You were just asked to summarize your playthrough so far, which is the summary '' @
     ''you see above. You may now continue playing by selecting your next action.''"

definition summarize_history :: "env \<Rightarrow> unit action" where
  "summarize_history env =
     and_then (get_screenshot env) (\<lambda>screenshot.
     and_then (get_screenshot_base64 env screenshot 2) (\<lambda>screenshot_b64.
     and_then
       (\<lambda>s. call (ChatCompletionsCreate
                    ([Turn System (Str SYSTEM_PROMPT)] @ message_history s @
                     [Turn User (Str SUMMARY_PROMPT)]) None)
               (\<lambda>tr. chat_completions_create env tr
                    ([Turn System (Str SYSTEM_PROMPT)] @ message_history s @
                     [Turn User (Str SUMMARY_PROMPT)]) None) s)
       (\<lambda>response.
     and_then (lift (first_choice response)) (\<lambda>message.
     (\<lambda>s. history_assign
        [Turn User
           (Parts
              [TextPart (''CONVERSATION HISTORY SUMMARY (representing '' @
                         show_int (max_history s) @ '' previous messages): '' @
                         format_content env (content_or_empty (message_content message))),
               ImageUrlPart (data_uri screenshot_b64),
               TextPart CONTINUE_TEXT])] s)))))"

subsection \<open>run\<close>

definition OBSERVATION_TEXT :: string where
  "OBSERVATION_TEXT =
     ''Here is the current game state from memory and a screenshot of the game screen. '' @
     ''Use the tools to decide what to do next.\<newline>\<newline>GAME STATE:\<newline>''"

text \<open>\<open>for tc in tool_calls: _ = self._process_tool_call(tc)\<close>: the reports are dropped.\<close>

fun process_tool_calls :: "env \<Rightarrow> tool_call list \<Rightarrow> unit action" where
  "process_tool_calls env [] s = (Inr (), s)"
| "process_tool_calls env (tc # tool_calls) s =
     (case process_tool_call env tc s of
        (Inl e, s') \<Rightarrow> (Inl e, s')
      | (Inr report, s') \<Rightarrow> process_tool_calls env tool_calls s')"

text \<open>One pass through the body of the \<open>try\<close> of the loop (lines 219 to 286).\<close>

definition step :: "env \<Rightarrow> unit action" where
  "step env =
     and_then (\<lambda>s. (Inr (message_history s), s)) (\<lambda>messages.
     and_then (get_screenshot env) (\<lambda>screenshot.
     and_then (get_screenshot_base64 env screenshot 2) (\<lambda>screenshot_b64.
     and_then (call GetStateFromMemory (emulator_get_state_from_memory env)) (\<lambda>memory_info.
     (let user_content =
            Parts [TextPart (OBSERVATION_TEXT @ memory_info), ImageUrlPart (data_uri screenshot_b64)];
          request = [Turn System (Str SYSTEM_PROMPT)] @ messages @ [Turn User user_content]
      in
     and_then (call (ChatCompletionsCreate request (Some (openai_tools env)))
                 (\<lambda>tr. chat_completions_create env tr request (Some (openai_tools env))))
       (\<lambda>response.
     and_then (lift (first_choice response)) (\<lambda>message.
     and_then (history_append (Turn User user_content)) (\<lambda>u1.
     and_then (history_append (Turn Assistant (content_or_empty (message_content message))))
       (\<lambda>u2.
     and_then (process_tool_calls env
                 (case message_tool_calls message of None \<Rightarrow> [] | Some tcs \<Rightarrow> tcs)) (\<lambda>u3 s.
     if int (length (message_history s)) \<ge> max_history s
     then summarize_history env s
     else (Inr (), s)))))))))))"

text \<open>
  The loop of \<open>run\<close>. A \<open>KeyboardInterrupt\<close> clears \<open>running\<close> and the
  loop goes on to its test; any other exception leaves the loop and \<open>run\<close>.
\<close>

function run_loop :: "env \<Rightarrow> int \<Rightarrow> int \<Rightarrow> state \<Rightarrow> (py_exn + int) \<times> state" where
  "run_loop env num_steps steps_completed s =
     (if running s \<and> steps_completed < num_steps then
        (case step env s of
           (Inr u, s') \<Rightarrow> run_loop env num_steps (steps_completed + 1) s'
         | (Inl e, s') \<Rightarrow>
             if e = KeyboardInterrupt
             then run_loop env num_steps steps_completed (s'\<lparr>running := False\<rparr>)
             else (Inl e, s'))
      else (Inr steps_completed, s))"
  by pat_completeness auto
termination
  by (relation "measures [\<lambda>(env, num_steps, steps_completed, s). nat (num_steps - steps_completed),
                          \<lambda>(env, num_steps, steps_completed, s). if running s then 1 else 0]")
     auto

declare run_loop.simps [simp del]

definition run :: "env \<Rightarrow> int \<Rightarrow> int action" where
  "run env num_steps =
     and_then (run_loop env num_steps 0) (\<lambda>steps_completed.
     and_then (\<lambda>s. if \<not> running s then call Stop (emulator_stop env) s else (Inr (), s)) (\<lambda>u.
     returns steps_completed))"

subsection \<open>__init__ and stop\<close>

text \<open>The state before the constructor has run: nothing has happened.\<close>

definition blank_image :: image where
  "blank_image = \<lparr>width = 0, height = 0, pixels = []\<rparr>"

definition fresh :: state where
  "fresh = \<lparr>message_history = [], max_history = 0, running = False, trace = [],
            store = (\<lambda>i. blank_image), next_id = 0\<rparr>"

definition FIRST_TURN :: turn where
  "FIRST_TURN = Turn User (Str ''You may now begin playing.'')"

definition init :: "env \<Rightarrow> string \<Rightarrow> bool \<Rightarrow> bool \<Rightarrow> int \<Rightarrow> string option \<Rightarrow> unit action" where
  "init env rom_path headless sound max_hist load_state =
     and_then (call (EmulatorNew rom_path headless sound) (emulator_new env)) (\<lambda>u1.
     and_then (call Initialize (emulator_initialize env)) (\<lambda>u2.
     and_then (call OpenAINew (openai_new env)) (\<lambda>u3.
     and_then (\<lambda>s. (Inr (), s\<lparr>running := True\<rparr>)) (\<lambda>u4.
     and_then (history_assign [FIRST_TURN]) (\<lambda>u5.
     and_then (\<lambda>s. (Inr (), s\<lparr>max_history := max_hist\<rparr>)) (\<lambda>u6.
     (case load_state of
        Some path \<Rightarrow>
          if path \<noteq> [] then call (LoadState path) (\<lambda>tr. emulator_load_state env tr path)
          else returns ()
      | None \<Rightarrow> returns ())))))))"

definition stop :: "env \<Rightarrow> unit action" where
  "stop env = and_then (\<lambda>s. (Inr (), s\<lparr>running := False\<rparr>)) (\<lambda>u. call Stop (emulator_stop env))"

subsection \<open>A concrete environment\<close>

text \<open>
  An environment to run the agent on: the emulator shows a frame of one pixel
  in Pallet Town, its path solver finds every target blocked, and the chat
  service answers every request with tools by one \<open>press_buttons\<close> call and
  every request without tools by a recap. \<open>demo_json_loads\<close> agrees with
  \<open>json.loads\<close> on the argument texts of the examples below; \<open>not json\<close>
  is the text that does not decode.
\<close>

definition demo_frame :: image where
  "demo_frame = \<lparr>width = 1, height = 1, pixels = [0x4D]\<rparr>"

definition demo_json_loads :: "string \<Rightarrow> json option" where
  "demo_json_loads raw =
     (if raw = ''{}'' then Some (JObject [])
      else if raw = ''[]'' then Some (JArray [])
      else if raw = ''{\"buttons\": [\"a\"]}'' then Some (JObject [(''buttons'', JArray [JString ''a''])])
      else if raw = ''{\"buttons\": [\"a\", \"a\", \"start\"]}''
        then Some (JObject [(''buttons'', JArray [JString ''a'', JString ''a'', JString ''start''])])
      else if raw = ''{\"row\": 2, \"col\": 3}'' then Some (JObject [(''row'', JInt 2), (''col'', JInt 3)])
      else None)"

definition demo_message :: chat_message where
  "demo_message =
     ChatMessage (Some (Str ''Press A.'')) (Some [ToolCall ''press_buttons'' ''{\"buttons\": [\"a\"]}''])"

definition demo_env :: env where
  "demo_env =
     \<lparr>USE_NAVIGATOR = True,
      json_loads = demo_json_loads,
      str_parts = (\<lambda>ps. ''[...]''),
      image_resize = (\<lambda>img (w, h). img\<lparr>width := w, height := h\<rparr>),
      image_save_png = pixels,
      emulator_new = (\<lambda>tr. Inr ()),
      emulator_initialize = (\<lambda>tr. Inr ()),
      emulator_load_state = (\<lambda>tr path. Inr ()),
      emulator_get_screenshot = (\<lambda>tr. Inr demo_frame),
      emulator_get_state_from_memory = (\<lambda>tr. Inr ''HP: 20''),
      emulator_get_location = (\<lambda>tr. Inr (Some ''PALLET TOWN'')),
      emulator_get_active_dialog = (\<lambda>tr. Inr None),
      emulator_get_collision_map = (\<lambda>tr. Inr None),
      emulator_press_buttons = (\<lambda>tr buttons wait. Inr ()),
      emulator_find_path = (\<lambda>tr row col. Inr (''blocked'', None)),
      emulator_stop = (\<lambda>tr. Inr ()),
      openai_new = (\<lambda>tr. Inr ()),
      chat_completions_create =
        (\<lambda>tr messages tools.
           case tools of
             Some names \<Rightarrow> Inr (ChatResponse [demo_message])
           | None \<Rightarrow> Inr (ChatResponse [ChatMessage (Some (Str ''Recap.'')) None]))\<rparr>"

text \<open>The agent right after \<open>OpenAIAgent(rom, max_history=n)\<close> on this environment.\<close>

definition demo_agent :: "int \<Rightarrow> state" where
  "demo_agent n = snd (init demo_env ''pokemon.gb'' True False n None fresh)"

text \<open>The same agent after it has taken one screenshot: object 0 is the frame.\<close>

definition demo_observed :: state where
  "demo_observed = snd (get_screenshot demo_env (demo_agent 3))"

subsection \<open>What a statement changes and which calls it makes\<close>

text \<open>
  \<open>encoded env frame upscale\<close> is the text that \<open>get_screenshot_base64\<close> returns
  for an image: the PNG bytes of the image (of its resized copy when the
  factor is above 1), in base64.
\<close>

definition encoded :: "env \<Rightarrow> image \<Rightarrow> int \<Rightarrow> string" where
  "encoded env frame upscale =
     standard_b64encode
       (image_save_png env
          (if upscale > 1
           then image_resize env frame (width frame * upscale, height frame * upscale)
           else frame))"

text \<open>
  The two settings of the agent that only the constructor, the handler of
  \<open>KeyboardInterrupt\<close> and \<open>stop\<close> write.
\<close>

definition config :: "state \<Rightarrow> int \<times> bool" where
  "config s = (max_history s, running s)"

text \<open>
  A statement keeps a component of the state when the component is the same
  after it, whatever it returns or raises. It is \<open>untouched\<close> when it keeps
  the transcript and the settings.
\<close>

definition keeps :: "(state \<Rightarrow> 'x) \<Rightarrow> 'a action \<Rightarrow> bool" where
  "keeps f m \<longleftrightarrow> (\<forall>s. f (snd (m s)) = f s)"

definition untouched :: "'a action \<Rightarrow> bool" where
  "untouched m \<longleftrightarrow> keeps message_history m \<and> keeps config m"

text \<open>
  The calls that the tool dispatcher can make: all of them are calls of the
  emulator.
\<close>

fun tool_event :: "event \<Rightarrow> bool" where
  "tool_event (PressButtons buttons wait) = True"
| "tool_event (FindPath row col) = True"
| "tool_event GetScreenshot = True"
| "tool_event GetStateFromMemory = True"
| "tool_event GetLocation = True"
| "tool_event GetActiveDialog = True"
| "tool_event GetCollisionMap = True"
| "tool_event ev = False"

text \<open>
  \<open>emits P m\<close>: the statement \<open>m\<close> only appends to the trace, and every event it
  appends satisfies \<open>P\<close>. \<open>emits_then P Q m\<close>: what \<open>m\<close> appends is a run of
  events that satisfy \<open>P\<close>, followed by a run of events that satisfy \<open>Q\<close>.
\<close>

definition emits :: "(event \<Rightarrow> bool) \<Rightarrow> 'a action \<Rightarrow> bool" where
  "emits P m \<longleftrightarrow> (\<forall>s. \<exists>evs. trace (snd (m s)) = trace s @ evs \<and> list_all P evs)"

definition emits_then :: "(event \<Rightarrow> bool) \<Rightarrow> (event \<Rightarrow> bool) \<Rightarrow> 'a action \<Rightarrow> bool" where
  "emits_then P Q m \<longleftrightarrow>
     (\<forall>s. \<exists>a b. trace (snd (m s)) = trace s @ a @ b \<and> list_all P a \<and> list_all Q b)"

text \<open>
  For the order of the phases of a step: the appends to the transcript, and
  the calls that only the tool dispatcher makes (a step takes its own
  screenshot and reads the memory state before the request, so those two calls
  do not tell the phases apart). \<open>dispatch_before_append\<close> says of the events
  of a step that no call of the dispatcher comes after an append to the
  transcript.
\<close>

fun is_append :: "event \<Rightarrow> bool" where
  "is_append (HistoryAppend t) = True"
| "is_append ev = False"

fun dispatch_call :: "event \<Rightarrow> bool" where
  "dispatch_call (PressButtons buttons wait) = True"
| "dispatch_call (FindPath row col) = True"
| "dispatch_call GetLocation = True"
| "dispatch_call GetActiveDialog = True"
| "dispatch_call GetCollisionMap = True"
| "dispatch_call ev = False"

definition dispatch_before_append :: "event list \<Rightarrow> bool" where
  "dispatch_before_append evs \<longleftrightarrow>
     \<not> list_ex dispatch_call (dropWhile (\<lambda>ev. \<not> is_append ev) evs)"

subsection \<open>The life of an agent\<close>

text \<open>
  The states in which the agent can be between two passes of the loop of
  \<open>run\<close>, over any number of calls of \<open>run\<close>: the state the constructor leaves;
  the state after a pass that completed; the state after a pass that a
  \<open>KeyboardInterrupt\<close> cut short, with \<open>running\<close> cleared by the handler; and
  the state after \<open>emulator.stop()\<close> at the end of a \<open>run\<close> that found
  \<open>running\<close> cleared. A pass starts only in such a state with \<open>running\<close> set.
  An exception other than \<open>KeyboardInterrupt\<close> leaves \<open>run\<close>; its caller
  (\<open>ai_loop\<close> in main.py) then ends its own loop, so no pass follows it and
  the relation has no rule for it.
\<close>

inductive reachable :: "env \<Rightarrow> state \<Rightarrow> bool" for env where
  constructed:
    "init env rom_path headless sound max_hist load_state fresh = (Inr u, s) \<Longrightarrow> reachable env s"
| stepped:
    "reachable env s \<Longrightarrow> running s \<Longrightarrow> step env s = (Inr u, s') \<Longrightarrow> reachable env s'"
| cancelled:
    "reachable env s \<Longrightarrow> running s \<Longrightarrow> step env s = (Inl KeyboardInterrupt, s') \<Longrightarrow>
     reachable env (s'\<lparr>running := False\<rparr>)"
| stopped:
    "reachable env s \<Longrightarrow> \<not> running s \<Longrightarrow> call Stop (emulator_stop env) s = (Inr u, s') \<Longrightarrow>
     reachable env s'"

text \<open>
  \<open>interrupted_after env num_steps steps_completed s k s'\<close>: the loop of \<open>run\<close>,
  entered in state \<open>s\<close> with the counter at \<open>steps_completed\<close>, completes passes
  until the counter is \<open>k\<close>, and the next pass raises \<open>KeyboardInterrupt\<close>,
  leaving the state \<open>s'\<close>.
\<close>

inductive interrupted_after :: "env \<Rightarrow> int \<Rightarrow> int \<Rightarrow> state \<Rightarrow> int \<Rightarrow> state \<Rightarrow> bool"
  for env num_steps where
  now:
    "running s \<Longrightarrow> steps_completed < num_steps \<Longrightarrow> step env s = (Inl KeyboardInterrupt, s') \<Longrightarrow>
     interrupted_after env num_steps steps_completed s steps_completed s'"
| later:
    "running s \<Longrightarrow> steps_completed < num_steps \<Longrightarrow> step env s = (Inr u, s1) \<Longrightarrow>
     interrupted_after env num_steps (steps_completed + 1) s1 k s' \<Longrightarrow>
     interrupted_after env num_steps steps_completed s k s'"

subsection \<open>More of the concrete environment\<close>

text \<open>
  The user turn of a step on the concrete environment; an emulator whose
  \<open>get_location\<close> raises; a chat service that answers the first request and
  raises \<open>KeyboardInterrupt\<close> at the next one (a request of the first step is
  made with six events in the trace); and some tool calls.
\<close>

definition demo_user_turn :: turn where
  "demo_user_turn =
     Turn User (Parts [TextPart (OBSERVATION_TEXT @ ''HP: 20''),
                       ImageUrlPart (data_uri ''TQ=='')])"

definition failing_env :: env where
  "failing_env = demo_env\<lparr>emulator_get_location := (\<lambda>tr. Inl (Exception ''emulator crashed''))\<rparr>"

definition interrupting_env :: env where
  "interrupting_env =
     demo_env\<lparr>chat_completions_create :=
       (\<lambda>tr messages tools.
          if length tr \<le> 6 then Inr (ChatResponse [ChatMessage (Some (Str ''Wait.'')) None])
          else Inl KeyboardInterrupt)\<rparr>"

definition press_a :: tool_call where
  "press_a = ToolCall ''press_buttons'' ''{\"buttons\": [\"a\"]}''"

definition press_undecodable :: tool_call where
  "press_undecodable = ToolCall ''press_buttons'' ''not json''"

definition press_list :: tool_call where
  "press_list = ToolCall ''press_buttons'' ''[]''"

definition press_a_a_start :: tool_call where
  "press_a_a_start = ToolCall ''press_buttons'' ''{\"buttons\": [\"a\", \"a\", \"start\"]}''"

definition navigate_2_3 :: tool_call where
  "navigate_2_3 = ToolCall ''navigate_to'' ''{\"row\": 2, \"col\": 3}''"

section \<open>Properties\<close>

subsection \<open>Evaluating the concrete environment\<close>

lemma demo_env_simps [simp]:
  "USE_NAVIGATOR demo_env = True"
  "json_loads demo_env = demo_json_loads"
  "str_parts demo_env = (\<lambda>ps. ''[...]'')"
  "image_resize demo_env = (\<lambda>img (w, h). img\<lparr>width := w, height := h\<rparr>)"
  "image_save_png demo_env = pixels"
  "emulator_new demo_env = (\<lambda>tr. Inr ())"
  "emulator_initialize demo_env = (\<lambda>tr. Inr ())"
  "emulator_load_state demo_env = (\<lambda>tr path. Inr ())"
  "emulator_get_screenshot demo_env = (\<lambda>tr. Inr demo_frame)"
  "emulator_get_state_from_memory demo_env = (\<lambda>tr. Inr ''HP: 20'')"
  "emulator_get_location demo_env = (\<lambda>tr. Inr (Some ''PALLET TOWN''))"
  "emulator_get_active_dialog demo_env = (\<lambda>tr. Inr None)"
  "emulator_get_collision_map demo_env = (\<lambda>tr. Inr None)"
  "emulator_press_buttons demo_env = (\<lambda>tr buttons wait. Inr ())"
  "emulator_find_path demo_env = (\<lambda>tr row col. Inr (''blocked'', None))"
  "emulator_stop demo_env = (\<lambda>tr. Inr ())"
  "openai_new demo_env = (\<lambda>tr. Inr ())"
  "chat_completions_create demo_env =
     (\<lambda>tr messages tools.
        case tools of
          Some names \<Rightarrow> Inr (ChatResponse [demo_message])
        | None \<Rightarrow> Inr (ChatResponse [ChatMessage (Some (Str ''Recap.'')) None]))"
  by (simp_all add: demo_env_def)

lemma failing_env_simps [simp]:
  "json_loads failing_env = demo_json_loads"
  "emulator_get_state_from_memory failing_env = (\<lambda>tr. Inr ''HP: 20'')"
  "emulator_get_location failing_env = (\<lambda>tr. Inl (Exception ''emulator crashed''))"
  "emulator_press_buttons failing_env = (\<lambda>tr buttons wait. Inr ())"
  by (simp_all add: failing_env_def)

lemma interrupting_env_simps [simp]:
  "USE_NAVIGATOR interrupting_env = True"
  "image_resize interrupting_env = (\<lambda>img (w, h). img\<lparr>width := w, height := h\<rparr>)"
  "image_save_png interrupting_env = pixels"
  "emulator_get_screenshot interrupting_env = (\<lambda>tr. Inr demo_frame)"
  "emulator_get_state_from_memory interrupting_env = (\<lambda>tr. Inr ''HP: 20'')"
  "emulator_stop interrupting_env = (\<lambda>tr. Inr ())"
  "chat_completions_create interrupting_env =
     (\<lambda>tr messages tools.
        if length tr \<le> 6 then Inr (ChatResponse [ChatMessage (Some (Str ''Wait.'')) None])
        else Inl KeyboardInterrupt)"
  by (simp_all add: interrupting_env_def)

lemmas run_defs =
  and_then_def call_def returns_def lift_def new_image_def get_screenshot_def
  history_append_def history_assign_def get_screenshot_base64_def

lemmas eval_defs =
  run_defs step_def Let_def first_choice_def demo_message_def process_tool_call_def
  decode_arguments_def demo_json_loads_def arguments_get_def try_except_Exception_def
  press_buttons_body_def or_else_def summarize_history_def demo_frame_def
  openai_tools_def AVAILABLE_TOOLS_def

lemma demo_agent_eval:
  "demo_agent n =
     \<lparr>message_history = [FIRST_TURN], max_history = n, running = True,
      trace = [EmulatorNew ''pokemon.gb'' True False, Initialize, OpenAINew,
               HistoryAssign [FIRST_TURN]],
      store = (\<lambda>i. blank_image), next_id = 0\<rparr>"
  by (simp add: demo_agent_def init_def fresh_def run_defs)

lemma demo_init: "init demo_env ''pokemon.gb'' True False n None fresh = (Inr (), demo_agent n)"
  by (simp add: demo_agent_def init_def fresh_def run_defs)

subsection \<open>What a statement leaves alone\<close>

lemma keepsD: "keeps f m \<Longrightarrow> m s = (r, s') \<Longrightarrow> f s' = f s"
  by (auto simp: keeps_def dest: spec [of _ s])

text \<open>
  Sequencing and \<open>try\<close> keep what their parts keep.
\<close>

lemma keeps_and_then:
  assumes "keeps f m" and "\<And>x. keeps f (g x)"
  shows "keeps f (and_then m g)"
  unfolding keeps_def
proof
  fix s
  obtain r s1 where m: "m s = (r, s1)" by (cases "m s")
  from keepsD [OF assms(1) m] have a: "f s1 = f s" .
  show "f (snd (and_then m g s)) = f s"
  proof (cases r)
    case (Inl e)
    with m a show ?thesis by (simp add: and_then_def)
  next
    case (Inr x)
    obtain r2 s2 where g: "g x s1 = (r2, s2)" by (cases "g x s1")
    from keepsD [OF assms(2) g] a have "f s2 = f s" by simp
    with m Inr g show ?thesis by (simp add: and_then_def)
  qed
qed

lemma keeps_try_except_Exception:
  assumes "keeps f body" and "\<And>e. keeps f (handler e)"
  shows "keeps f (try_except_Exception body handler)"
  unfolding keeps_def
proof
  fix s
  obtain r s1 where b: "body s = (r, s1)" by (cases "body s")
  from keepsD [OF assms(1) b] have a: "f s1 = f s" .
  show "f (snd (try_except_Exception body handler s)) = f s"
  proof (cases r)
    case (Inr x)
    with b a show ?thesis by (simp add: try_except_Exception_def)
  next
    case (Inl e)
    obtain r2 s2 where h: "handler e s1 = (r2, s2)" by (cases "handler e s1")
    from keepsD [OF assms(2) h] a have "f s2 = f s" by simp
    with b Inl h a show ?thesis by (simp add: try_except_Exception_def)
  qed
qed

lemma keeps_basic [simp]:
  "keeps f (returns x)" "keeps f (lift r)"
  "keeps message_history (call ev a)" "keeps message_history (new_image img)"
  "keeps config (call ev a)" "keeps config (new_image img)"
  "keeps config (history_append t)" "keeps config (history_assign ts)"
  by (simp_all add: keeps_def config_def returns_def lift_def call_def new_image_def
                    history_append_def history_assign_def)

lemma untouched_and_then: "untouched m \<Longrightarrow> (\<And>x. untouched (g x)) \<Longrightarrow> untouched (and_then m g)"
  by (simp add: untouched_def keeps_and_then)

lemma untouched_try_except_Exception:
  "untouched body \<Longrightarrow> (\<And>e. untouched (handler e)) \<Longrightarrow> untouched (try_except_Exception body handler)"
  by (simp add: untouched_def keeps_try_except_Exception)

lemma untouched_basic [simp]:
  "untouched (returns x)" "untouched (lift r)" "untouched (call ev a)" "untouched (new_image img)"
  by (simp_all add: untouched_def)

lemma untouched_get_screenshot [simp]: "untouched (get_screenshot env)"
  unfolding get_screenshot_def by (intro untouched_and_then untouched_basic)

lemma untouched_get_screenshot_base64 [simp]:
  "untouched (get_screenshot_base64 env screenshot upscale)"
  unfolding get_screenshot_base64_def
  by (intro untouched_and_then)
     (auto simp: untouched_def keeps_def config_def new_image_def returns_def)

lemma untouched_press_buttons_body [simp]: "untouched (press_buttons_body env buttons wait)"
  unfolding press_buttons_body_def by (intro untouched_and_then untouched_basic)

text \<open>
  The two loops over lists, written with \<open>and_then\<close>.
\<close>

lemma follow_path_Cons:
  "follow_path env (direction # path) =
     and_then (call (PressButtons (JArray [JString direction]) (JBool True))
                 (\<lambda>tr. emulator_press_buttons env tr (JArray [JString direction]) (JBool True)))
       (\<lambda>result. follow_path env path)"
  by (rule ext) (simp add: and_then_def split: prod.splits sum.splits)

lemma follow_path_Nil: "follow_path env [] = returns ()"
  by (rule ext) (simp add: returns_def)

lemma process_tool_calls_Cons:
  "process_tool_calls env (tc # tool_calls) =
     and_then (process_tool_call env tc) (\<lambda>report. process_tool_calls env tool_calls)"
  by (rule ext) (simp add: and_then_def split: prod.splits sum.splits)

lemma process_tool_calls_Nil: "process_tool_calls env [] = returns ()"
  by (rule ext) (simp add: returns_def)

lemma untouched_follow_path [simp]: "untouched (follow_path env path)"
  by (induction path)
     (simp_all only: follow_path_Nil follow_path_Cons untouched_and_then untouched_basic)

lemma untouched_navigate_result [simp]: "untouched (navigate_result env status path)"
  unfolding navigate_result_def
  by (auto split: option.splits list.splits intro!: untouched_and_then)

text \<open>
  The dispatcher writes neither the transcript nor the settings.
\<close>

lemma untouched_process_tool_call [simp]: "untouched (process_tool_call env tool_call)"
  unfolding process_tool_call_def Let_def
  by (auto intro!: untouched_and_then untouched_try_except_Exception simp: split_def)

lemma untouched_process_tool_calls [simp]: "untouched (process_tool_calls env tool_calls)"
  by (induction tool_calls)
     (simp_all only: process_tool_calls_Nil process_tool_calls_Cons untouched_and_then
                     untouched_basic untouched_process_tool_call)

lemma untouchedD:
  "untouched m \<Longrightarrow> m s = (r, s') \<Longrightarrow>
     message_history s' = message_history s \<and> max_history s' = max_history s \<and>
     running s' = running s"
  by (auto simp: untouched_def config_def dest!: keepsD)

subsection \<open>The calls a statement makes\<close>

lemma emitsD: "emits P m \<Longrightarrow> m s = (r, s') \<Longrightarrow> \<exists>evs. trace s' = trace s @ evs \<and> list_all P evs"
  by (auto simp: emits_def dest: spec [of _ s])

lemma emits_mono: "emits P m \<Longrightarrow> (\<And>ev. P ev \<Longrightarrow> Q ev) \<Longrightarrow> emits Q m"
  unfolding emits_def list_all_iff by blast

lemma emits_and_then:
  assumes "emits P m" and "\<And>x. emits P (f x)"
  shows "emits P (and_then m f)"
  unfolding emits_def
proof
  fix s
  obtain r s1 where m: "m s = (r, s1)" by (cases "m s")
  from emitsD [OF assms(1) m] obtain evs where a: "trace s1 = trace s @ evs" "list_all P evs" by auto
  show "\<exists>evs. trace (snd (and_then m f s)) = trace s @ evs \<and> list_all P evs"
  proof (cases r)
    case (Inl e)
    with m a show ?thesis by (auto simp: and_then_def)
  next
    case (Inr x)
    obtain r2 s2 where f: "f x s1 = (r2, s2)" by (cases "f x s1")
    from emitsD [OF assms(2) f] obtain evs2 where "trace s2 = trace s1 @ evs2" "list_all P evs2" by auto
    with a have "trace s2 = trace s @ (evs @ evs2) \<and> list_all P (evs @ evs2)" by simp
    with m Inr f show ?thesis unfolding and_then_def by (auto simp del: append_assoc)
  qed
qed

lemma emits_try_except_Exception:
  assumes "emits P body" and "\<And>e. emits P (handler e)"
  shows "emits P (try_except_Exception body handler)"
  unfolding emits_def
proof
  fix s
  obtain r s1 where m: "body s = (r, s1)" by (cases "body s")
  from emitsD [OF assms(1) m] obtain evs where a: "trace s1 = trace s @ evs" "list_all P evs" by auto
  show "\<exists>evs. trace (snd (try_except_Exception body handler s)) = trace s @ evs \<and> list_all P evs"
  proof (cases r)
    case (Inr x)
    with m a show ?thesis by (auto simp: try_except_Exception_def)
  next
    case (Inl e)
    obtain r2 s2 where f: "handler e s1 = (r2, s2)" by (cases "handler e s1")
    from emitsD [OF assms(2) f] obtain evs2 where "trace s2 = trace s1 @ evs2" "list_all P evs2" by auto
    with a have "trace s2 = trace s @ (evs @ evs2) \<and> list_all P (evs @ evs2)" by simp
    with m Inl f a show ?thesis unfolding try_except_Exception_def by (auto simp del: append_assoc)
  qed
qed

lemma emits_basic [simp]:
  "emits P (returns x)" "emits P (lift r)" "emits P (new_image img)"
  by (simp_all add: emits_def returns_def lift_def new_image_def)

lemma emits_call [simp]: "P ev \<Longrightarrow> emits P (call ev a)"
  by (simp add: emits_def call_def)

lemma emits_get_screenshot [simp]: "emits tool_event (get_screenshot env)"
  unfolding get_screenshot_def by (intro emits_and_then emits_basic emits_call) simp

lemma emits_get_screenshot_base64 [simp]: "emits P (get_screenshot_base64 env screenshot upscale)"
  unfolding get_screenshot_base64_def
  by (intro emits_and_then) (auto simp: emits_def new_image_def returns_def)

lemma emits_press_buttons_body [simp]: "emits tool_event (press_buttons_body env buttons wait)"
  unfolding press_buttons_body_def by (intro emits_and_then emits_basic emits_call) simp_all

lemma emits_follow_path [simp]: "emits tool_event (follow_path env path)"
  by (induction path) (simp_all add: follow_path_Nil follow_path_Cons emits_and_then)

lemma emits_navigate_result [simp]: "emits tool_event (navigate_result env status path)"
  unfolding navigate_result_def
  by (auto split: option.splits list.splits intro!: emits_and_then)

lemma emits_process_tool_call [simp]: "emits tool_event (process_tool_call env tool_call)"
  unfolding process_tool_call_def Let_def
  by (auto intro!: emits_and_then emits_try_except_Exception simp: split_def)

lemma emits_process_tool_calls [simp]: "emits tool_event (process_tool_calls env tool_calls)"
  by (induction tool_calls)
     (simp_all add: process_tool_calls_Nil process_tool_calls_Cons emits_and_then)

subsection \<open>Encoding a frame\<close>



subsection \<open>The tool dispatcher\<close>



lemma navigate_result_no_path:
  "path = None \<or> path = Some [] \<Longrightarrow>
   navigate_result env status path s = (Inr (''Navigation failed: '' @ status), s)"
  by (auto simp: navigate_result_def returns_def)

text \<open>
  C6. A \<open>navigate_to\<close> call for which the path solver returns no path (\<open>None\<close>
  or an empty list): after \<open>find_path\<close> the dispatcher only reads the emulator
  (at most the screenshot, the memory state and the collision map, as far as
  they do not raise), so it makes no call of \<open>press_buttons\<close> and changes
  nothing in the emulator; and every report it returns holds the text
  \<open>Navigation failed: \<close> followed by the solver's status.
\<close>

theorem navigate_to_no_path:
  assumes name: "function_name tool_call = ''navigate_to''"
      and row: "arguments_get (decode_arguments env tool_call) ''row'' JNull = Inr row"
      and col: "arguments_get (decode_arguments env tool_call) ''col'' JNull = Inr col"
      and solver: "emulator_find_path env (trace s) row col = Inr (status, path)"
      and no_path: "path = None \<or> path = Some []"
      and result: "process_tool_call env tool_call s = (r, s')"
  shows "\<exists>reads. trace s' = trace s @ FindPath row col # reads
           \<and> set reads \<subseteq> {GetScreenshot, GetStateFromMemory, GetCollisionMap}
           \<and> (\<forall>report. r = Inr report \<longrightarrow>
                 (\<exists>memory_info. report =
                    ''Navigation result: '' @ (''Navigation failed: '' @ status) @
                    ''\<newline>\<newline>'' @ ''Game state after navigation:\<newline>'' @ memory_info))"
  using result name row col solver navigate_result_no_path [OF no_path, of env status]
  by (auto simp: process_tool_call_def Let_def run_defs split: sum.splits prod.splits)

theorem navigate_to_no_path_witness:
  "function_name navigate_2_3 = ''navigate_to''
   \<and> arguments_get (decode_arguments demo_env navigate_2_3) ''row'' JNull = Inr (JInt 2)
   \<and> arguments_get (decode_arguments demo_env navigate_2_3) ''col'' JNull = Inr (JInt 3)
   \<and> emulator_find_path demo_env (trace (demo_agent 60)) (JInt 2) (JInt 3) = Inr (''blocked'', None)
   \<and> fst (process_tool_call demo_env navigate_2_3 (demo_agent 60)) =
       Inr (''Navigation result: Navigation failed: blocked'' @ ''\<newline>\<newline>'' @
            ''Game state after navigation:\<newline>'' @ ''HP: 20'')
   \<and> trace (snd (process_tool_call demo_env navigate_2_3 (demo_agent 60))) =
       trace (demo_agent 60) @
       [FindPath (JInt 2) (JInt 3), GetScreenshot, GetStateFromMemory, GetCollisionMap]
   \<and> (\<exists>reads. trace (snd (process_tool_call demo_env navigate_2_3 (demo_agent 60))) =
                trace (demo_agent 60) @ FindPath (JInt 2) (JInt 3) # reads
              \<and> set reads \<subseteq> {GetScreenshot, GetStateFromMemory, GetCollisionMap})"
proof -
  have h1: "function_name navigate_2_3 = ''navigate_to''" by (simp add: navigate_2_3_def)
  have h2: "arguments_get (decode_arguments demo_env navigate_2_3) ''row'' JNull = Inr (JInt 2)"
    by (simp add: navigate_2_3_def decode_arguments_def demo_json_loads_def arguments_get_def)
  have h3: "arguments_get (decode_arguments demo_env navigate_2_3) ''col'' JNull = Inr (JInt 3)"
    by (simp add: navigate_2_3_def decode_arguments_def demo_json_loads_def arguments_get_def)
  have h4: "emulator_find_path demo_env (trace (demo_agent 60)) (JInt 2) (JInt 3)
              = Inr (''blocked'', None)" by simp
  have h5: "(None :: string list option) = None \<or> (None :: string list option) = Some []" by simp
  have h6: "process_tool_call demo_env navigate_2_3 (demo_agent 60) =
              (fst (process_tool_call demo_env navigate_2_3 (demo_agent 60)),
               snd (process_tool_call demo_env navigate_2_3 (demo_agent 60)))" by simp
  have v: "fst (process_tool_call demo_env navigate_2_3 (demo_agent 60)) =
       Inr (''Navigation result: Navigation failed: blocked'' @ ''\<newline>\<newline>'' @
            ''Game state after navigation:\<newline>'' @ ''HP: 20'')"
     "trace (snd (process_tool_call demo_env navigate_2_3 (demo_agent 60))) =
       trace (demo_agent 60) @
       [FindPath (JInt 2) (JInt 3), GetScreenshot, GetStateFromMemory, GetCollisionMap]"
    by (simp_all add: navigate_2_3_def demo_agent_eval eval_defs navigate_result_def)
  from navigate_to_no_path [OF h1 h2 h3 h4 h5 h6] have
    "\<exists>reads. trace (snd (process_tool_call demo_env navigate_2_3 (demo_agent 60))) =
                trace (demo_agent 60) @ FindPath (JInt 2) (JInt 3) # reads
              \<and> set reads \<subseteq> {GetScreenshot, GetStateFromMemory, GetCollisionMap}"
    by blast
  with h1 h2 h3 h4 v show ?thesis by simp
qed

lemma press_buttons_branch:
  assumes "function_name tool_call = ''press_buttons''"
      and "arguments_get (decode_arguments env tool_call) ''buttons'' (JArray []) = Inr buttons"
      and "arguments_get (decode_arguments env tool_call) ''wait'' (JBool True) = Inr wait"
  shows "process_tool_call env tool_call s =
           try_except_Exception (press_buttons_body env buttons wait)
             (\<lambda>e. returns (''Error processing button press: '' @ str_exn e)) s"
  using assms by (simp add: process_tool_call_def Let_def and_then_def lift_def)

text \<open>
  The body of the \<open>try\<close> raises what the first failing call of the emulator
  raises: \<open>press_buttons\<close>, or one of the reads after it.
\<close>

lemma press_buttons_body_raises:
  assumes "emulator_press_buttons env (trace s) buttons wait = Inl e
         \<or> (\<exists>result. emulator_press_buttons env (trace s) buttons wait = Inr result
              \<and> emulator_get_state_from_memory env (trace s @ [PressButtons buttons wait]) = Inl e)
         \<or> (\<exists>result memory_info.
                emulator_press_buttons env (trace s) buttons wait = Inr result
              \<and> emulator_get_state_from_memory env (trace s @ [PressButtons buttons wait])
                  = Inr memory_info
              \<and> emulator_get_location env
                    (trace s @ [PressButtons buttons wait, GetStateFromMemory]) = Inl e)
         \<or> (\<exists>result memory_info location.
                emulator_press_buttons env (trace s) buttons wait = Inr result
              \<and> emulator_get_state_from_memory env (trace s @ [PressButtons buttons wait])
                  = Inr memory_info
              \<and> emulator_get_location env
                    (trace s @ [PressButtons buttons wait, GetStateFromMemory]) = Inr location
              \<and> emulator_get_active_dialog env
                    (trace s @ [PressButtons buttons wait, GetStateFromMemory, GetLocation])
                  = Inl e)
         \<or> (\<exists>result memory_info location dialog.
                emulator_press_buttons env (trace s) buttons wait = Inr result
              \<and> emulator_get_state_from_memory env (trace s @ [PressButtons buttons wait])
                  = Inr memory_info
              \<and> emulator_get_location env
                    (trace s @ [PressButtons buttons wait, GetStateFromMemory]) = Inr location
              \<and> emulator_get_active_dialog env
                    (trace s @ [PressButtons buttons wait, GetStateFromMemory, GetLocation])
                  = Inr dialog
              \<and> emulator_get_collision_map env
                    (trace s @ [PressButtons buttons wait, GetStateFromMemory, GetLocation,
                                GetActiveDialog]) = Inl e)"
  shows "fst (press_buttons_body env buttons wait s) = Inl e"
  using assms by (auto simp: press_buttons_body_def and_then_def call_def)

text \<open>
  C10. A \<open>press_buttons\<close> call whose arguments are an object: when the
  emulator's \<open>press_buttons\<close>, or (after it returned) the read of the memory
  state, of the location, of the dialog or of the collision map raises an
  \<open>Exception\<close>, the dispatcher does not raise: it returns the report
  \<open>Error processing button press: \<close> followed by the exception's text, and the
  transcript is unchanged. Whatever happens, no \<open>Exception\<close> leaves this
  branch of the dispatcher. (\<open>KeyboardInterrupt\<close> and \<open>SystemExit\<close> are not
  subclasses of \<open>Exception\<close>: \<open>except Exception\<close> lets them pass.)
\<close>

theorem press_buttons_exception_reported:
  assumes name: "function_name tool_call = ''press_buttons''"
      and buttons: "arguments_get (decode_arguments env tool_call) ''buttons'' (JArray []) = Inr buttons"
      and wait: "arguments_get (decode_arguments env tool_call) ''wait'' (JBool True) = Inr wait"
      and exn: "is_Exception e"
      and raised:
        "emulator_press_buttons env (trace s) buttons wait = Inl e
         \<or> (\<exists>result. emulator_press_buttons env (trace s) buttons wait = Inr result
              \<and> emulator_get_state_from_memory env (trace s @ [PressButtons buttons wait]) = Inl e)
         \<or> (\<exists>result memory_info.
                emulator_press_buttons env (trace s) buttons wait = Inr result
              \<and> emulator_get_state_from_memory env (trace s @ [PressButtons buttons wait])
                  = Inr memory_info
              \<and> emulator_get_location env
                    (trace s @ [PressButtons buttons wait, GetStateFromMemory]) = Inl e)
         \<or> (\<exists>result memory_info location.
                emulator_press_buttons env (trace s) buttons wait = Inr result
              \<and> emulator_get_state_from_memory env (trace s @ [PressButtons buttons wait])
                  = Inr memory_info
              \<and> emulator_get_location env
                    (trace s @ [PressButtons buttons wait, GetStateFromMemory]) = Inr location
              \<and> emulator_get_active_dialog env
                    (trace s @ [PressButtons buttons wait, GetStateFromMemory, GetLocation])
                  = Inl e)
         \<or> (\<exists>result memory_info location dialog.
                emulator_press_buttons env (trace s) buttons wait = Inr result
              \<and> emulator_get_state_from_memory env (trace s @ [PressButtons buttons wait])
                  = Inr memory_info
              \<and> emulator_get_location env
                    (trace s @ [PressButtons buttons wait, GetStateFromMemory]) = Inr location
              \<and> emulator_get_active_dialog env
                    (trace s @ [PressButtons buttons wait, GetStateFromMemory, GetLocation])
                  = Inr dialog
              \<and> emulator_get_collision_map env
                    (trace s @ [PressButtons buttons wait, GetStateFromMemory, GetLocation,
                                GetActiveDialog]) = Inl e)"
  shows "fst (process_tool_call env tool_call s) =
           Inr (''Error processing button press: '' @ str_exn e)
       \<and> message_history (snd (process_tool_call env tool_call s)) = message_history s
       \<and> (\<forall>e'. fst (process_tool_call env tool_call s) = Inl e' \<longrightarrow> \<not> is_Exception e')"
proof -
  obtain r0 s0 where b: "press_buttons_body env buttons wait s = (r0, s0)"
    by (cases "press_buttons_body env buttons wait s")
  from press_buttons_body_raises [OF raised] b have r0: "r0 = Inl e" by simp
  obtain r s' where p: "process_tool_call env tool_call s = (r, s')"
    by (cases "process_tool_call env tool_call s")
  from untouchedD [OF untouched_process_tool_call p] p
  have "message_history (snd (process_tool_call env tool_call s)) = message_history s" by simp
  then show ?thesis
    using b r0 exn
    by (simp add: press_buttons_branch [OF name buttons wait] try_except_Exception_def
                  returns_def)
qed

theorem press_buttons_exception_reported_witness:
  "function_name press_a = ''press_buttons''
   \<and> arguments_get (decode_arguments failing_env press_a) ''buttons'' (JArray [])
       = Inr (JArray [JString ''a''])
   \<and> arguments_get (decode_arguments failing_env press_a) ''wait'' (JBool True) = Inr (JBool True)
   \<and> is_Exception (Exception ''emulator crashed'')
   \<and> emulator_press_buttons failing_env (trace (demo_agent 60)) (JArray [JString ''a''])
         (JBool True) = Inr ()
   \<and> emulator_get_state_from_memory failing_env
         (trace (demo_agent 60) @ [PressButtons (JArray [JString ''a'']) (JBool True)])
       = Inr ''HP: 20''
   \<and> emulator_get_location failing_env
         (trace (demo_agent 60) @
          [PressButtons (JArray [JString ''a'']) (JBool True), GetStateFromMemory])
       = Inl (Exception ''emulator crashed'')
   \<and> fst (process_tool_call failing_env press_a (demo_agent 60)) =
       Inr ''Error processing button press: emulator crashed''
   \<and> message_history (snd (process_tool_call failing_env press_a (demo_agent 60))) =
       message_history (demo_agent 60)"
proof -
  have h1: "function_name press_a = ''press_buttons''" by (simp add: press_a_def)
  have h2: "arguments_get (decode_arguments failing_env press_a) ''buttons'' (JArray [])
       = Inr (JArray [JString ''a''])"
    by (simp add: press_a_def decode_arguments_def demo_json_loads_def arguments_get_def)
  have h3: "arguments_get (decode_arguments failing_env press_a) ''wait'' (JBool True)
       = Inr (JBool True)"
    by (simp add: press_a_def decode_arguments_def demo_json_loads_def arguments_get_def)
  have h4: "is_Exception (Exception ''emulator crashed'')" by simp
  have c1: "emulator_press_buttons failing_env (trace (demo_agent 60)) (JArray [JString ''a''])
         (JBool True) = Inr ()" by simp
  have c2: "emulator_get_state_from_memory failing_env
         (trace (demo_agent 60) @ [PressButtons (JArray [JString ''a'']) (JBool True)])
       = Inr ''HP: 20''" by simp
  have c3: "emulator_get_location failing_env
         (trace (demo_agent 60) @
          [PressButtons (JArray [JString ''a'']) (JBool True), GetStateFromMemory])
       = Inl (Exception ''emulator crashed'')" by simp
  from c1 c2 c3 have h5:
    "emulator_press_buttons failing_env (trace (demo_agent 60)) (JArray [JString ''a''])
       (JBool True) = Inl (Exception ''emulator crashed'')
     \<or> (\<exists>result. emulator_press_buttons failing_env (trace (demo_agent 60))
                    (JArray [JString ''a'']) (JBool True) = Inr result
          \<and> emulator_get_state_from_memory failing_env
               (trace (demo_agent 60) @ [PressButtons (JArray [JString ''a'']) (JBool True)])
             = Inl (Exception ''emulator crashed''))
     \<or> (\<exists>result memory_info.
            emulator_press_buttons failing_env (trace (demo_agent 60))
                    (JArray [JString ''a'']) (JBool True) = Inr result
          \<and> emulator_get_state_from_memory failing_env
               (trace (demo_agent 60) @ [PressButtons (JArray [JString ''a'']) (JBool True)])
             = Inr memory_info
          \<and> emulator_get_location failing_env
               (trace (demo_agent 60) @
                [PressButtons (JArray [JString ''a'']) (JBool True), GetStateFromMemory])
             = Inl (Exception ''emulator crashed''))
     \<or> (\<exists>result memory_info location.
            emulator_press_buttons failing_env (trace (demo_agent 60))
                    (JArray [JString ''a'']) (JBool True) = Inr result
          \<and> emulator_get_state_from_memory failing_env
               (trace (demo_agent 60) @ [PressButtons (JArray [JString ''a'']) (JBool True)])
             = Inr memory_info
          \<and> emulator_get_location failing_env
               (trace (demo_agent 60) @
                [PressButtons (JArray [JString ''a'']) (JBool True), GetStateFromMemory])
             = Inr location
          \<and> emulator_get_active_dialog failing_env
               (trace (demo_agent 60) @
                [PressButtons (JArray [JString ''a'']) (JBool True), GetStateFromMemory,
                 GetLocation])
             = Inl (Exception ''emulator crashed''))
     \<or> (\<exists>result memory_info location dialog.
            emulator_press_buttons failing_env (trace (demo_agent 60))
                    (JArray [JString ''a'']) (JBool True) = Inr result
          \<and> emulator_get_state_from_memory failing_env
               (trace (demo_agent 60) @ [PressButtons (JArray [JString ''a'']) (JBool True)])
             = Inr memory_info
          \<and> emulator_get_location failing_env
               (trace (demo_agent 60) @
                [PressButtons (JArray [JString ''a'']) (JBool True), GetStateFromMemory])
             = Inr location
          \<and> emulator_get_active_dialog failing_env
               (trace (demo_agent 60) @
                [PressButtons (JArray [JString ''a'']) (JBool True), GetStateFromMemory,
                 GetLocation])
             = Inr dialog
          \<and> emulator_get_collision_map failing_env
               (trace (demo_agent 60) @
                [PressButtons (JArray [JString ''a'']) (JBool True), GetStateFromMemory,
                 GetLocation, GetActiveDialog])
             = Inl (Exception ''emulator crashed''))"
    by blast
  from press_buttons_exception_reported [OF h1 h2 h3 h4 h5] h1 h2 h3 h4 c1 c2 c3
  show ?thesis by simp
qed

text \<open>
  The same for everything the body of the \<open>try\<close> can raise, the join of the
  button names included.
\<close>

lemma press_buttons_no_Exception_escapes:
  assumes name: "function_name tool_call = ''press_buttons''"
      and buttons: "arguments_get (decode_arguments env tool_call) ''buttons'' (JArray []) = Inr buttons"
      and wait: "arguments_get (decode_arguments env tool_call) ''wait'' (JBool True) = Inr wait"
  shows "(\<forall>e s'. press_buttons_body env buttons wait s = (Inl e, s') \<and> is_Exception e \<longrightarrow>
            process_tool_call env tool_call s =
              (Inr (''Error processing button press: '' @ str_exn e), s'))
       \<and> (\<forall>e. fst (process_tool_call env tool_call s) = Inl e \<longrightarrow> \<not> is_Exception e)"
proof -
  obtain r0 s0 where b: "press_buttons_body env buttons wait s = (r0, s0)"
    by (cases "press_buttons_body env buttons wait s")
  then show ?thesis
    by (auto simp: press_buttons_branch [OF assms] try_except_Exception_def returns_def
             split: sum.splits if_splits)
qed

lemma press_buttons_body_first_event:
  "\<exists>rest. trace (snd (press_buttons_body env buttons wait s)) =
          trace s @ PressButtons buttons wait # rest"
  by (auto simp: press_buttons_body_def run_defs split: sum.splits prod.splits)



text \<open>
  The arguments text can also decode to a value that is not an object (a list,
  a number, a string, \<open>null\<close>). That is a successful decode, so the handler of
  \<open>JSONDecodeError\<close> does not run, and \<open>arguments.get\<close> on line 142, outside the
  \<open>try\<close> of the emulator calls, raises \<open>AttributeError\<close>: the dispatcher raises
  and makes no call of the emulator. \<open>[]\<close> is such a text.
\<close>

lemma press_buttons_non_object_arguments:
  assumes "function_name tool_call = ''press_buttons''"
      and "\<forall>kvs. decode_arguments env tool_call \<noteq> JObject kvs"
  shows "process_tool_call env tool_call s =
           (Inl (AttributeError
                   ([CHR 0x27] @ type_name (decode_arguments env tool_call) @ [CHR 0x27] @
                    '' object has no attribute '' @ [CHR 0x27] @ ''get'' @ [CHR 0x27])), s)"
  using assms
  by (cases "decode_arguments env tool_call")
     (simp_all add: process_tool_call_def Let_def and_then_def lift_def arguments_get_def)

lemma press_list_raises:
  "process_tool_call demo_env press_list (demo_agent 60) =
     (Inl (AttributeError ([CHR 0x27] @ ''list'' @ [CHR 0x27] @ '' object has no attribute '' @
                           [CHR 0x27] @ ''get'' @ [CHR 0x27])), demo_agent 60)"
  by (simp add: press_list_def process_tool_call_def Let_def and_then_def lift_def
                arguments_get_def decode_arguments_def demo_json_loads_def)

text \<open>
  The arguments \<open>{"buttons": ["a", "a", "start"]}\<close>: one call of
  \<open>emulator.press_buttons\<close> with the three buttons in order and \<open>wait\<close> at its
  default, and a report that names them.
\<close>

lemma press_a_a_start_report:
  "fst (process_tool_call demo_env press_a_a_start (demo_agent 60)) =
     Inr (''Action: Pressed buttons: a, a, start'' @ ''\<newline>'' @ ''Location: PALLET TOWN'' @
          ''\<newline>'' @ ''Game State:'' @ ''\<newline>'' @ ''HP: 20'')"
  "trace (snd (process_tool_call demo_env press_a_a_start (demo_agent 60))) =
     trace (demo_agent 60) @
     [PressButtons (JArray [JString ''a'', JString ''a'', JString ''start'']) (JBool True),
      GetStateFromMemory, GetLocation, GetActiveDialog, GetCollisionMap]"
  by (simp_all add: press_a_a_start_def demo_agent_eval eval_defs)

subsection \<open>One step of the loop\<close>

lemma and_then_Inr:
  "and_then m f s = (Inr y, s') \<longleftrightarrow> (\<exists>x s1. m s = (Inr x, s1) \<and> f x s1 = (Inr y, s'))"
  by (auto simp: and_then_def split: prod.splits sum.splits)

lemma call_Inr:
  "call ev a s = (Inr x, s') \<longleftrightarrow> a (trace s) = Inr x \<and> s' = s\<lparr>trace := trace s @ [ev]\<rparr>"
  by (auto simp: call_def)

lemma get_screenshot_Inr:
  "get_screenshot env s = (Inr shot, s') \<longleftrightarrow>
     (\<exists>frame. emulator_get_screenshot env (trace s) = Inr frame \<and> shot = next_id s \<and>
        s' = s\<lparr>trace := trace s @ [GetScreenshot], store := (store s)(next_id s := frame),
               next_id := Suc (next_id s)\<rparr>)"
  by (auto simp: get_screenshot_def and_then_Inr call_Inr new_image_def)

lemma get_screenshot_base64_2:
  "get_screenshot_base64 env shot 2 s =
     (Inr (encoded env (store s shot) 2),
      s\<lparr>store := (store s)(next_id s :=
              image_resize env (store s shot) (width (store s shot) * 2, height (store s shot) * 2)),
        next_id := Suc (next_id s)\<rparr>)"
  by (simp add: get_screenshot_base64_def and_then_def new_image_def encoded_def)

lemma encoded_demo [simp]: "encoded demo_env demo_frame 2 = ''TQ==''"
  by (simp add: encoded_def demo_frame_def b64_char_def b64_alphabet_def)

text \<open>
  What a completed \<open>summarize_history\<close> and a completed pass of the loop have
  done, call by call.
\<close>

lemma summarize_history_Inr:
  assumes "summarize_history env s = (Inr u, s')"
  shows "\<exists>frame response message.
           emulator_get_screenshot env (trace s) = Inr frame
         \<and> chat_completions_create env (trace s @ [GetScreenshot])
               ([Turn System (Str SYSTEM_PROMPT)] @ message_history s @
                [Turn User (Str SUMMARY_PROMPT)]) None = Inr response
         \<and> first_choice response = Inr message
         \<and> message_history s' =
               [Turn User
                  (Parts
                     [TextPart (''CONVERSATION HISTORY SUMMARY (representing '' @
                                show_int (max_history s) @ '' previous messages): '' @
                                format_content env (content_or_empty (message_content message))),
                      ImageUrlPart (data_uri (encoded env frame 2)),
                      TextPart CONTINUE_TEXT])]
         \<and> trace s' = trace s @
               [GetScreenshot,
                ChatCompletionsCreate
                  ([Turn System (Str SYSTEM_PROMPT)] @ message_history s @
                   [Turn User (Str SUMMARY_PROMPT)]) None,
                HistoryAssign (message_history s')]
         \<and> max_history s' = max_history s \<and> running s' = running s"
  using assms
  by (auto simp: summarize_history_def and_then_Inr call_Inr get_screenshot_Inr
                 get_screenshot_base64_2 lift_def history_assign_def)

lemma step_Inr:
  assumes "step env s = (Inr u, s')"
  shows "\<exists>frame memory_info response message s2 s3.
           emulator_get_screenshot env (trace s) = Inr frame
         \<and> emulator_get_state_from_memory env (trace s @ [GetScreenshot]) = Inr memory_info
         \<and> chat_completions_create env (trace s @ [GetScreenshot, GetStateFromMemory])
               ([Turn System (Str SYSTEM_PROMPT)] @ message_history s @
                [Turn User (Parts [TextPart (OBSERVATION_TEXT @ memory_info),
                                   ImageUrlPart (data_uri (encoded env frame 2))])])
               (Some (openai_tools env)) = Inr response
         \<and> first_choice response = Inr message
         \<and> message_history s2 = message_history s @
               [Turn User (Parts [TextPart (OBSERVATION_TEXT @ memory_info),
                                  ImageUrlPart (data_uri (encoded env frame 2))]),
                Turn Assistant (content_or_empty (message_content message))]
         \<and> trace s2 = trace s @
               [GetScreenshot, GetStateFromMemory,
                ChatCompletionsCreate
                  ([Turn System (Str SYSTEM_PROMPT)] @ message_history s @
                   [Turn User (Parts [TextPart (OBSERVATION_TEXT @ memory_info),
                                      ImageUrlPart (data_uri (encoded env frame 2))])])
                  (Some (openai_tools env)),
                HistoryAppend
                  (Turn User (Parts [TextPart (OBSERVATION_TEXT @ memory_info),
                                     ImageUrlPart (data_uri (encoded env frame 2))])),
                HistoryAppend (Turn Assistant (content_or_empty (message_content message)))]
         \<and> max_history s2 = max_history s \<and> running s2 = running s
         \<and> process_tool_calls env
               (case message_tool_calls message of None \<Rightarrow> [] | Some tcs \<Rightarrow> tcs) s2 = (Inr (), s3)
         \<and> (if max_history s3 \<le> int (length (message_history s3))
              then summarize_history env s3 else (Inr (), s3)) = (Inr (), s')"
proof -
  from assms obtain frame memory_info response message s3 where
    facts:
      "emulator_get_screenshot env (trace s) = Inr frame"
      "emulator_get_state_from_memory env (trace s @ [GetScreenshot]) = Inr memory_info"
      "chat_completions_create env (trace s @ [GetScreenshot, GetStateFromMemory])
         (Turn System (Str SYSTEM_PROMPT) # message_history s @
          [Turn User (Parts [TextPart (OBSERVATION_TEXT @ memory_info),
                             ImageUrlPart (data_uri (encoded env frame 2))])])
         (Some (openai_tools env)) = Inr response"
      "first_choice response = Inr message"
      "process_tool_calls env
         (case message_tool_calls message of None \<Rightarrow> [] | Some tcs \<Rightarrow> tcs)
         (s\<lparr>store := (store s)(next_id s := frame,
                  Suc (next_id s) := image_resize env frame (width frame * 2, height frame * 2)),
             next_id := Suc (Suc (next_id s)),
             message_history := message_history s @
               [Turn User (Parts [TextPart (OBSERVATION_TEXT @ memory_info),
                                  ImageUrlPart (data_uri (encoded env frame 2))]),
                Turn Assistant (content_or_empty (message_content message))],
             trace := trace s @
               [GetScreenshot, GetStateFromMemory,
                ChatCompletionsCreate
                 (Turn System (Str SYSTEM_PROMPT) # message_history s @
                  [Turn User (Parts [TextPart (OBSERVATION_TEXT @ memory_info),
                                     ImageUrlPart (data_uri (encoded env frame 2))])])
                 (Some (openai_tools env)),
                HistoryAppend
                 (Turn User (Parts [TextPart (OBSERVATION_TEXT @ memory_info),
                                    ImageUrlPart (data_uri (encoded env frame 2))])),
                HistoryAppend (Turn Assistant (content_or_empty (message_content message)))]\<rparr>)
       = (Inr (), s3)"
      "(if max_history s3 \<le> int (length (message_history s3))
        then summarize_history env s3 else (Inr (), s3)) = (Inr (), s')"
    by (auto simp: step_def and_then_Inr call_Inr get_screenshot_Inr get_screenshot_base64_2
                   Let_def lift_def history_append_def)
  show ?thesis
    apply (rule exI [of _ frame], rule exI [of _ memory_info], rule exI [of _ response],
           rule exI [of _ message])
    apply (rule exI [of _ "s\<lparr>store := (store s)(next_id s := frame,
                  Suc (next_id s) := image_resize env frame (width frame * 2, height frame * 2)),
               next_id := Suc (Suc (next_id s)),
               message_history := message_history s @
                 [Turn User (Parts [TextPart (OBSERVATION_TEXT @ memory_info),
                                    ImageUrlPart (data_uri (encoded env frame 2))]),
                  Turn Assistant (content_or_empty (message_content message))],
               trace := trace s @
                 [GetScreenshot, GetStateFromMemory,
                  ChatCompletionsCreate
                   (Turn System (Str SYSTEM_PROMPT) # message_history s @
                    [Turn User (Parts [TextPart (OBSERVATION_TEXT @ memory_info),
                                       ImageUrlPart (data_uri (encoded env frame 2))])])
                   (Some (openai_tools env)),
                  HistoryAppend
                   (Turn User (Parts [TextPart (OBSERVATION_TEXT @ memory_info),
                                      ImageUrlPart (data_uri (encoded env frame 2))])),
                  HistoryAppend (Turn Assistant (content_or_empty (message_content message)))]\<rparr>"])
    apply (rule exI [of _ s3])
    using facts apply simp
    done
qed

lemma process_tool_calls_Inr:
  assumes "process_tool_calls env tcs s = (r, s')"
  shows "message_history s' = message_history s \<and> max_history s' = max_history s
       \<and> running s' = running s
       \<and> (\<exists>dispatch. trace s' = trace s @ dispatch \<and> list_all tool_event dispatch)"
  using untouchedD [OF untouched_process_tool_calls assms]
        emitsD [OF emits_process_tool_calls assms] by simp

lemma demo_step_60:
  "fst (step demo_env (demo_agent 60)) = Inr ()"
  "message_history (snd (step demo_env (demo_agent 60))) =
     [FIRST_TURN, demo_user_turn, Turn Assistant (Str ''Press A.'')]"
  "trace (snd (step demo_env (demo_agent 60))) = trace (demo_agent 60) @
     [GetScreenshot, GetStateFromMemory,
      ChatCompletionsCreate [Turn System (Str SYSTEM_PROMPT), FIRST_TURN, demo_user_turn]
        (Some [''press_buttons'', ''navigate_to'']),
      HistoryAppend demo_user_turn, HistoryAppend (Turn Assistant (Str ''Press A.'')),
      PressButtons (JArray [JString ''a'']) (JBool True), GetStateFromMemory, GetLocation,
      GetActiveDialog, GetCollisionMap]"
  by (simp_all add: demo_agent_eval eval_defs demo_user_turn_def b64_char_def b64_alphabet_def)

lemma demo_step_3:
  "fst (step demo_env (demo_agent 3)) = Inr ()"
  "message_history (snd (step demo_env (demo_agent 3))) =
     [Turn User
        (Parts [TextPart ''CONVERSATION HISTORY SUMMARY (representing 3 previous messages): Recap.'',
                ImageUrlPart (data_uri ''TQ==''),
                TextPart CONTINUE_TEXT])]"
  by (simp_all add: demo_agent_eval eval_defs b64_char_def b64_alphabet_def
                    show_int_def show_nat.simps digit_char_def)

text \<open>
  C2. A pass of the loop that completes and does not reach \<open>max_history\<close>
  appends exactly two turns to the transcript: the user turn with the
  observation (the memory state and the encoded frame) and the assistant turn
  whose content is the content of the model's message, empty when it has none.
  Neither the tool calls of the message nor the reports of the dispatcher
  enter the transcript.
\<close>

theorem step_appends_two_turns:
  assumes "step env s = (Inr u, s')"
      and "int (length (message_history s)) + 2 < max_history s"
  shows "\<exists>frame memory_info response message.
           emulator_get_screenshot env (trace s) = Inr frame
         \<and> emulator_get_state_from_memory env (trace s @ [GetScreenshot]) = Inr memory_info
         \<and> chat_completions_create env (trace s @ [GetScreenshot, GetStateFromMemory])
               ([Turn System (Str SYSTEM_PROMPT)] @ message_history s @
                [Turn User (Parts [TextPart (OBSERVATION_TEXT @ memory_info),
                                   ImageUrlPart (data_uri (encoded env frame 2))])])
               (Some (openai_tools env)) = Inr response
         \<and> first_choice response = Inr message
         \<and> message_history s' = message_history s @
               [Turn User (Parts [TextPart (OBSERVATION_TEXT @ memory_info),
                                  ImageUrlPart (data_uri (encoded env frame 2))]),
                Turn Assistant (content_or_empty (message_content message))]
         \<and> length (message_history s') = length (message_history s) + 2"
proof -
  from step_Inr [OF assms(1)] obtain frame memory_info response message s2 s3 where
    f: "emulator_get_screenshot env (trace s) = Inr frame"
       "emulator_get_state_from_memory env (trace s @ [GetScreenshot]) = Inr memory_info"
       "chat_completions_create env (trace s @ [GetScreenshot, GetStateFromMemory])
               ([Turn System (Str SYSTEM_PROMPT)] @ message_history s @
                [Turn User (Parts [TextPart (OBSERVATION_TEXT @ memory_info),
                                   ImageUrlPart (data_uri (encoded env frame 2))])])
               (Some (openai_tools env)) = Inr response"
       "first_choice response = Inr message"
    and h2: "message_history s2 = message_history s @
               [Turn User (Parts [TextPart (OBSERVATION_TEXT @ memory_info),
                                  ImageUrlPart (data_uri (encoded env frame 2))]),
                Turn Assistant (content_or_empty (message_content message))]"
    and m2: "max_history s2 = max_history s"
    and d: "process_tool_calls env
               (case message_tool_calls message of None \<Rightarrow> [] | Some tcs \<Rightarrow> tcs) s2 = (Inr (), s3)"
    and c: "(if max_history s3 \<le> int (length (message_history s3))
              then summarize_history env s3 else (Inr (), s3)) = (Inr (), s')"
    by blast
  from process_tool_calls_Inr [OF d] h2 m2
  have h3: "message_history s3 = message_history s @
               [Turn User (Parts [TextPart (OBSERVATION_TEXT @ memory_info),
                                  ImageUrlPart (data_uri (encoded env frame 2))]),
                Turn Assistant (content_or_empty (message_content message))]"
    and m3: "max_history s3 = max_history s" by simp_all
  from h3 m3 assms(2) have "\<not> max_history s3 \<le> int (length (message_history s3))" by simp
  with c have "s' = s3" by simp
  with h3 f show ?thesis by auto
qed

theorem step_appends_two_turns_witness:
  "step demo_env (demo_agent 60) = (Inr (), snd (step demo_env (demo_agent 60)))
   \<and> int (length (message_history (demo_agent 60))) + 2 < max_history (demo_agent 60)
   \<and> message_history (snd (step demo_env (demo_agent 60))) =
       [FIRST_TURN, demo_user_turn, Turn Assistant (Str ''Press A.'')]
   \<and> length (message_history (snd (step demo_env (demo_agent 60)))) =
       length (message_history (demo_agent 60)) + 2"
proof -
  have h1: "step demo_env (demo_agent 60) = (Inr (), snd (step demo_env (demo_agent 60)))"
    using demo_step_60(1) by (simp add: prod_eq_iff)
  have h2: "int (length (message_history (demo_agent 60))) + 2 < max_history (demo_agent 60)"
    by (simp add: demo_agent_eval)
  from step_appends_two_turns [OF h1 h2]
  have "length (message_history (snd (step demo_env (demo_agent 60)))) =
          length (message_history (demo_agent 60)) + 2" by blast
  with h1 h2 demo_step_60(2) show ?thesis by simp
qed

text \<open>
  C1. A pass of the loop that completes with a transcript of at least
  \<open>max_history\<close> turns has run \<open>summarize_history\<close> before it returns: the last
  events of its trace are a screenshot, the request for the summary (without
  tools, over the transcript with the two new turns) and the replacement of
  the transcript. The transcript the next pass finds is one user turn with, in
  order, the text that labels the summary as standing for \<open>max_history\<close>
  messages followed by the summary, the image of the frame that this
  screenshot captured, and the text that invites to continue.
\<close>

theorem step_compacts_at_max_history:
  assumes "step env s = (Inr u, s')"
      and "max_history s \<le> int (length (message_history s)) + 2"
  shows "\<exists>before user_turn assistant_turn frame response message.
           trace s' = before @
             [GetScreenshot,
              ChatCompletionsCreate
                ([Turn System (Str SYSTEM_PROMPT)] @
                 (message_history s @ [user_turn, assistant_turn]) @
                 [Turn User (Str SUMMARY_PROMPT)]) None,
              HistoryAssign (message_history s')]
         \<and> take (length (trace s)) before = trace s
         \<and> length (trace s) + 5 \<le> length before
         \<and> emulator_get_screenshot env before = Inr frame
         \<and> chat_completions_create env (before @ [GetScreenshot])
               ([Turn System (Str SYSTEM_PROMPT)] @
                (message_history s @ [user_turn, assistant_turn]) @
                [Turn User (Str SUMMARY_PROMPT)]) None = Inr response
         \<and> first_choice response = Inr message
         \<and> message_history s' =
               [Turn User
                  (Parts
                     [TextPart (''CONVERSATION HISTORY SUMMARY (representing '' @
                                show_int (max_history s) @ '' previous messages): '' @
                                format_content env (content_or_empty (message_content message))),
                      ImageUrlPart (data_uri (encoded env frame 2)),
                      TextPart CONTINUE_TEXT])]
         \<and> length (message_history s') = 1"
proof -
  from step_Inr [OF assms(1)] obtain memory_info frame0 message0 s2 s3 where
        h2: "message_history s2 = message_history s @
               [Turn User (Parts [TextPart (OBSERVATION_TEXT @ memory_info),
                                  ImageUrlPart (data_uri (encoded env frame0 2))]),
                Turn Assistant (content_or_empty (message_content message0))]"
    and t2: "\<exists>evs. trace s2 = trace s @ evs \<and> length evs = 5"
    and m2: "max_history s2 = max_history s"
    and d: "process_tool_calls env
               (case message_tool_calls message0 of None \<Rightarrow> [] | Some tcs \<Rightarrow> tcs) s2 = (Inr (), s3)"
    and c: "(if max_history s3 \<le> int (length (message_history s3))
              then summarize_history env s3 else (Inr (), s3)) = (Inr (), s')"
    by force
  from process_tool_calls_Inr [OF d] h2 m2 t2
  have h3: "message_history s3 = message_history s @
               [Turn User (Parts [TextPart (OBSERVATION_TEXT @ memory_info),
                                  ImageUrlPart (data_uri (encoded env frame0 2))]),
                Turn Assistant (content_or_empty (message_content message0))]"
    and m3: "max_history s3 = max_history s"
    and t3: "\<exists>evs. trace s3 = trace s @ evs \<and> 5 \<le> length evs" by auto
  from h3 m3 assms(2) have "max_history s3 \<le> int (length (message_history s3))" by simp
  with c have sum: "summarize_history env s3 = (Inr (), s')" by simp
  from t3 have pre: "take (length (trace s)) (trace s3) = trace s"
    and len: "length (trace s) + 5 \<le> length (trace s3)" by auto
  from summarize_history_Inr [OF sum] h3 m3 pre len show ?thesis
    apply (elim exE conjE)
    subgoal for frame response message
      apply (rule exI [of _ "trace s3"])
      apply (rule exI [of _ "Turn User (Parts [TextPart (OBSERVATION_TEXT @ memory_info),
                                  ImageUrlPart (data_uri (encoded env frame0 2))])"])
      apply (rule exI [of _ "Turn Assistant (content_or_empty (message_content message0))"])
      apply (rule exI [of _ frame], rule exI [of _ response], rule exI [of _ message])
      apply simp
      done
    done
qed

theorem step_compacts_at_max_history_witness:
  "step demo_env (demo_agent 3) = (Inr (), snd (step demo_env (demo_agent 3)))
   \<and> max_history (demo_agent 3) \<le> int (length (message_history (demo_agent 3))) + 2
   \<and> message_history (snd (step demo_env (demo_agent 3))) =
       [Turn User
          (Parts [TextPart ''CONVERSATION HISTORY SUMMARY (representing 3 previous messages): Recap.'',
                  ImageUrlPart (data_uri ''TQ==''),
                  TextPart CONTINUE_TEXT])]
   \<and> length (message_history (snd (step demo_env (demo_agent 3)))) = 1"
proof -
  have h1: "step demo_env (demo_agent 3) = (Inr (), snd (step demo_env (demo_agent 3)))"
    using demo_step_3(1) by (simp add: prod_eq_iff)
  have h2: "max_history (demo_agent 3) \<le> int (length (message_history (demo_agent 3))) + 2"
    by (simp add: demo_agent_eval)
  from step_compacts_at_max_history [OF h1 h2]
  have "length (message_history (snd (step demo_env (demo_agent 3)))) = 1" by blast
  with h1 h2 demo_step_3(2) show ?thesis by simp
qed

subsection \<open>The order of the phases of a step\<close>

lemma emits_history [simp]:
  "P (HistoryAppend t) \<Longrightarrow> emits P (history_append t)"
  "P (HistoryAssign ts) \<Longrightarrow> emits P (history_assign ts)"
  by (simp_all add: emits_def history_append_def history_assign_def)

lemma emits_then_right: "emits Q m \<Longrightarrow> emits_then P Q m"
  unfolding emits_def emits_then_def
proof
  fix s
  assume "\<forall>s. \<exists>evs. trace (snd (m s)) = trace s @ evs \<and> list_all Q evs"
  then obtain evs where "trace (snd (m s)) = trace s @ [] @ evs" "list_all Q evs" by auto
  then show "\<exists>a b. trace (snd (m s)) = trace s @ a @ b \<and> list_all P a \<and> list_all Q b"
    by (intro exI [of _ "[]"] exI [of _ evs]) simp
qed

lemma emits_then_left:
  assumes "emits P m" and "\<And>x. emits_then P Q (f x)"
  shows "emits_then P Q (and_then m f)"
  unfolding emits_then_def
proof
  fix s
  obtain r s1 where m: "m s = (r, s1)" by (cases "m s")
  from emitsD [OF assms(1) m] obtain evs where a: "trace s1 = trace s @ evs" "list_all P evs"
    by auto
  show "\<exists>a b. trace (snd (and_then m f s)) = trace s @ a @ b \<and> list_all P a \<and> list_all Q b"
  proof (cases r)
    case (Inl e)
    with m a show ?thesis
      by (intro exI [of _ evs] exI [of _ "[]"]) (simp add: and_then_def)
  next
    case (Inr x)
    from assms(2) [of x] obtain a2 b2 where
      "trace (snd (f x s1)) = trace s1 @ a2 @ b2" "list_all P a2" "list_all Q b2"
      unfolding emits_then_def by blast
    with a m Inr show ?thesis
      by (intro exI [of _ "evs @ a2"] exI [of _ b2]) (simp add: and_then_def)
  qed
qed

lemma emits_get_screenshot_no_append:
  "emits (\<lambda>ev. \<not> is_append ev) (get_screenshot env)"
  unfolding get_screenshot_def by (intro emits_and_then emits_basic emits_call) simp

lemma emits_summarize_history: "emits (\<lambda>ev. \<not> is_append ev) (summarize_history env)"
  unfolding summarize_history_def
  apply (intro emits_and_then emits_get_screenshot_no_append emits_get_screenshot_base64
               emits_basic)
   apply (simp add: emits_def call_def)
  apply (simp add: emits_def history_assign_def)
  done

lemma tool_event_not_append: "tool_event ev \<Longrightarrow> \<not> is_append ev"
  by (cases ev) simp_all

lemma emits_compaction:
  "emits (\<lambda>ev. \<not> is_append ev)
     (\<lambda>s. if max_history s \<le> int (length (message_history s))
          then summarize_history env s else (Inr (), s))"
  using emits_summarize_history [of env]
  by (auto simp: emits_def intro: exI [of _ "[]"])

lemma emits_dispatch_and_compaction:
  "emits_then P (\<lambda>ev. \<not> is_append ev)
     (and_then (process_tool_calls env tcs)
        (\<lambda>u3 s. if max_history s \<le> int (length (message_history s))
                then summarize_history env s else (Inr (), s)))"
  by (intro emits_then_right emits_and_then emits_compaction
            emits_mono [OF emits_process_tool_calls] tool_event_not_append)

lemma emits_read_history: "emits P (\<lambda>s. (Inr (message_history s), s))"
  by (simp add: emits_def)

lemma emits_get_screenshot_no_dispatch:
  "emits (\<lambda>ev. \<not> dispatch_call ev) (get_screenshot env)"
  unfolding get_screenshot_def by (intro emits_and_then emits_basic emits_call) simp

lemma step_emits:
  "emits_then (\<lambda>ev. \<not> dispatch_call ev) (\<lambda>ev. \<not> is_append ev) (step env)"
  unfolding step_def Let_def
  by (intro emits_dispatch_and_compaction emits_then_left emits_read_history
            emits_get_screenshot_no_dispatch emits_get_screenshot_base64 emits_call
            emits_basic emits_history)
     simp_all

text \<open>
  C7, as amended. In every pass of the loop, whatever its outcome, every
  append to the transcript comes before every call of the tool dispatcher: the
  events of the pass are a run without calls of the dispatcher followed by a
  run without appends. A pass that completes has made, in this order: the
  screenshot and the read of the memory state; the request with tools; the
  two appends to the transcript; the calls of the dispatcher; and then either
  nothing or the three events of the compaction.
\<close>

theorem step_phase_order:
  assumes "step env s = (r, s')"
  shows "(\<exists>a b. trace s' = trace s @ a @ b
            \<and> list_all (\<lambda>ev. \<not> dispatch_call ev) a \<and> list_all (\<lambda>ev. \<not> is_append ev) b)
       \<and> (r = Inr () \<longrightarrow>
            (\<exists>request user_turn assistant_turn dispatch compaction.
               trace s' = trace s @
                 [GetScreenshot, GetStateFromMemory,
                  ChatCompletionsCreate request (Some (openai_tools env)),
                  HistoryAppend user_turn, HistoryAppend assistant_turn]
                 @ dispatch @ compaction
             \<and> list_all tool_event dispatch
             \<and> (compaction = [] \<or>
                  (\<exists>summary_request turns.
                     compaction = [GetScreenshot, ChatCompletionsCreate summary_request None,
                                   HistoryAssign turns]))))"
proof (intro conjI impI)
  from step_emits [of env] assms
  show "\<exists>a b. trace s' = trace s @ a @ b
            \<and> list_all (\<lambda>ev. \<not> dispatch_call ev) a \<and> list_all (\<lambda>ev. \<not> is_append ev) b"
    unfolding emits_then_def by (metis snd_conv)
next
  assume "r = Inr ()"
  with assms have st: "step env s = (Inr (), s')" by simp
  from step_Inr [OF st] obtain request user_turn assistant_turn s2 s3 tcs where
        t2: "trace s2 = trace s @
               [GetScreenshot, GetStateFromMemory,
                ChatCompletionsCreate request (Some (openai_tools env)),
                HistoryAppend user_turn, HistoryAppend assistant_turn]"
    and d: "process_tool_calls env tcs s2 = (Inr (), s3)"
    and c: "(if max_history s3 \<le> int (length (message_history s3))
              then summarize_history env s3 else (Inr (), s3)) = (Inr (), s')"
    by blast
  from process_tool_calls_Inr [OF d] obtain dispatch where
    t3: "trace s3 = trace s2 @ dispatch" "list_all tool_event dispatch" by blast
  have "\<exists>compaction. trace s' = trace s3 @ compaction
          \<and> (compaction = [] \<or>
                  (\<exists>summary_request turns.
                     compaction = [GetScreenshot, ChatCompletionsCreate summary_request None,
                                   HistoryAssign turns]))"
  proof (cases "max_history s3 \<le> int (length (message_history s3))")
    case False
    with c show ?thesis by simp
  next
    case True
    with c have "summarize_history env s3 = (Inr (), s')" by simp
    from summarize_history_Inr [OF this] show ?thesis by blast
  qed
  then obtain compaction where
    t4: "trace s' = trace s3 @ compaction"
        "compaction = [] \<or>
                  (\<exists>summary_request turns.
                     compaction = [GetScreenshot, ChatCompletionsCreate summary_request None,
                                   HistoryAssign turns])" by blast
  from t2 t3 t4 have "trace s' = trace s @
                 [GetScreenshot, GetStateFromMemory,
                  ChatCompletionsCreate request (Some (openai_tools env)),
                  HistoryAppend user_turn, HistoryAppend assistant_turn]
                 @ dispatch @ compaction" by simp
  with t3(2) t4(2)
  show "\<exists>request user_turn assistant_turn dispatch compaction.
               trace s' = trace s @
                 [GetScreenshot, GetStateFromMemory,
                  ChatCompletionsCreate request (Some (openai_tools env)),
                  HistoryAppend user_turn, HistoryAppend assistant_turn]
                 @ dispatch @ compaction
             \<and> list_all tool_event dispatch
             \<and> (compaction = [] \<or>
                  (\<exists>summary_request turns.
                     compaction = [GetScreenshot, ChatCompletionsCreate summary_request None,
                                   HistoryAssign turns]))"
    by blast
qed

theorem step_phase_order_witness:
  "step demo_env (demo_agent 60) = (Inr (), snd (step demo_env (demo_agent 60)))
   \<and> (\<exists>request user_turn assistant_turn dispatch compaction.
         trace (snd (step demo_env (demo_agent 60))) = trace (demo_agent 60) @
           [GetScreenshot, GetStateFromMemory,
            ChatCompletionsCreate request (Some (openai_tools demo_env)),
            HistoryAppend user_turn, HistoryAppend assistant_turn]
           @ dispatch @ compaction
       \<and> list_all tool_event dispatch
       \<and> (compaction = [] \<or>
            (\<exists>summary_request turns.
               compaction = [GetScreenshot, ChatCompletionsCreate summary_request None,
                             HistoryAssign turns])))"
proof -
  have st: "step demo_env (demo_agent 60) = (Inr (), snd (step demo_env (demo_agent 60)))"
    using demo_step_60(1) by (simp add: prod_eq_iff)
  from step_phase_order [OF st] st show ?thesis by simp
qed

text \<open>
  C7 as stated (tool dispatch before the append to the transcript) fails: on
  the concrete environment the pass presses the button after both appends.
\<close>

theorem dispatch_before_append_counterexample:
  "fst (step demo_env (demo_agent 60)) = Inr ()
   \<and> drop (length (trace (demo_agent 60))) (trace (snd (step demo_env (demo_agent 60)))) =
       [GetScreenshot, GetStateFromMemory,
        ChatCompletionsCreate [Turn System (Str SYSTEM_PROMPT), FIRST_TURN, demo_user_turn]
          (Some [''press_buttons'', ''navigate_to'']),
        HistoryAppend demo_user_turn, HistoryAppend (Turn Assistant (Str ''Press A.'')),
        PressButtons (JArray [JString ''a'']) (JBool True), GetStateFromMemory, GetLocation,
        GetActiveDialog, GetCollisionMap]
   \<and> \<not> dispatch_before_append
         (drop (length (trace (demo_agent 60))) (trace (snd (step demo_env (demo_agent 60)))))"
  by (simp add: demo_step_60 dispatch_before_append_def)

subsection \<open>The bound on the transcript\<close>

lemma step_Inr_history:
  assumes "step env s = (Inr u, s')"
  shows "max_history s' = max_history s \<and> running s' = running s
       \<and> length (message_history s') =
           (if max_history s \<le> int (length (message_history s)) + 2 then 1
            else length (message_history s) + 2)"
proof -
  from step_Inr [OF assms] obtain user_turn assistant_turn s2 s3 tcs where
        h: "message_history s2 = message_history s @ [user_turn, assistant_turn]"
    and m2: "max_history s2 = max_history s" "running s2 = running s"
    and d: "process_tool_calls env tcs s2 = (Inr (), s3)"
    and c: "(if max_history s3 \<le> int (length (message_history s3))
              then summarize_history env s3 else (Inr (), s3)) = (Inr (), s')"
    by blast
  from h have h2: "length (message_history s2) = length (message_history s) + 2" by simp
  from process_tool_calls_Inr [OF d] h2 m2
  have h3: "length (message_history s3) = length (message_history s) + 2"
    and m3: "max_history s3 = max_history s" "running s3 = running s" by simp_all
  show ?thesis
  proof (cases "max_history s \<le> int (length (message_history s)) + 2")
    case True
    with c h3 m3 have "summarize_history env s3 = (Inr (), s')" by simp
    from summarize_history_Inr [OF this] m3 True show ?thesis by auto
  next
    case False
    with c h3 m3 have "s' = s3" by simp
    with h3 m3 False show ?thesis by simp
  qed
qed

lemma load_state_keeps:
  assumes "(case load_state of
        Some path \<Rightarrow>
          if path \<noteq> [] then call (LoadState path) (\<lambda>tr. emulator_load_state env tr path)
          else returns ()
      | None \<Rightarrow> returns ()) s5 = (r, s)"
  shows "message_history s = message_history s5 \<and> max_history s = max_history s5
       \<and> running s = running s5"
  using assms by (auto simp: call_def returns_def split: option.splits if_splits)

lemma init_Inr:
  assumes "init env rom_path headless sound max_hist load_state fresh = (Inr u, s)"
  shows "message_history s = [FIRST_TURN] \<and> max_history s = max_hist \<and> running s"
  using assms
  by (auto simp: init_def and_then_Inr call_Inr history_assign_def dest!: load_state_keeps)

lemma keeps_config_summarize_history: "keeps config (summarize_history env)"
  unfolding summarize_history_def
  apply (intro keeps_and_then keeps_basic)
     apply (rule untouched_get_screenshot [unfolded untouched_def, THEN conjunct2])
    apply (rule untouched_get_screenshot_base64 [unfolded untouched_def, THEN conjunct2])
   apply (simp add: keeps_def config_def call_def)
  apply (simp add: keeps_def config_def history_assign_def)
  done

lemma keeps_config_step: "keeps config (step env)"
  unfolding step_def Let_def
  apply (intro keeps_and_then keeps_basic)
        apply (simp add: keeps_def)
       apply (rule untouched_get_screenshot [unfolded untouched_def, THEN conjunct2])
      apply (rule untouched_get_screenshot_base64 [unfolded untouched_def, THEN conjunct2])
   apply (rule untouched_process_tool_calls [unfolded untouched_def, THEN conjunct2])
  using keeps_config_summarize_history [of env]
  apply (simp add: keeps_def)
  done

lemma step_config:
  "step env s = (r, s') \<Longrightarrow> max_history s' = max_history s \<and> running s' = running s"
  using keepsD [OF keeps_config_step, of env s r s'] by (simp add: config_def)

text \<open>
  The invariant, by induction on the life of the agent.
\<close>

lemma reachable_invariant:
  "reachable env s \<Longrightarrow> 2 \<le> max_history s \<Longrightarrow> running s \<Longrightarrow>
   int (length (message_history s)) < max_history s"
proof (induction rule: reachable.induct)
  case (constructed rom_path headless sound max_hist load_state u s)
  from init_Inr [OF constructed.hyps] constructed.prems show ?case by simp
next
  case (stepped s u s')
  from step_Inr_history [OF stepped.hyps(3)] stepped.prems stepped.IH stepped.hyps(2)
  show ?case by (auto split: if_splits)
next
  case (cancelled s s')
  then show ?case by simp
next
  case (stopped s u s')
  then show ?case by (auto simp: call_def)
qed

text \<open>
  A call of \<open>run\<close> that returns leaves the agent in a state of \<open>reachable\<close>: the
  relation covers any sequence of calls of \<open>run\<close>.
\<close>

lemma run_loop_reachable:
  "reachable env s \<Longrightarrow> run_loop env num_steps steps_completed s = (Inr k, s') \<Longrightarrow>
   reachable env s'"
proof (induction env num_steps steps_completed s rule: run_loop.induct)
  case (1 env num_steps steps_completed s)
  show ?case
  proof (cases "running s \<and> steps_completed < num_steps")
    case False
    with "1.prems" show ?thesis by (simp add: run_loop.simps)
  next
    case True
    obtain r s1 where st: "step env s = (r, s1)" by (cases "step env s")
    show ?thesis
    proof (cases r)
      case (Inr u)
      with st True "1.prems"(1) have "reachable env s1" by (auto intro: reachable.stepped)
      moreover from st Inr True "1.prems"(2)
      have "run_loop env num_steps (steps_completed + 1) s1 = (Inr k, s')"
        by (simp add: run_loop.simps [of env num_steps steps_completed s])
      ultimately show ?thesis using "1.IH"(2) [OF True st [symmetric] Inr] by simp
    next
      case (Inl e)
      show ?thesis
      proof (cases "e = KeyboardInterrupt")
        case False
        with st Inl True "1.prems"(2) show ?thesis
          by (simp add: run_loop.simps [of env num_steps steps_completed s])
      next
        case ki: True
        with st Inl True "1.prems"(1) have "reachable env (s1\<lparr>running := False\<rparr>)"
          by (auto intro: reachable.cancelled)
        moreover from st Inl ki True "1.prems"(2)
        have "run_loop env num_steps steps_completed (s1\<lparr>running := False\<rparr>) = (Inr k, s')"
          by (simp add: run_loop.simps [of env num_steps steps_completed s])
        ultimately show ?thesis using "1.IH"(1) [OF True st [symmetric] Inl ki] by simp
      qed
    qed
  qed
qed

lemma run_reachable:
  assumes "reachable env s" and "run env num_steps s = (Inr k, s')"
  shows "reachable env s'"
proof -
  from assms(2) obtain k0 s1 where
    l: "run_loop env num_steps 0 s = (Inr k0, s1)"
    and f: "(if \<not> running s1 then call Stop (emulator_stop env) s1 else (Inr (), s1)) = (Inr (), s')"
    by (auto simp: run_def and_then_Inr returns_def)
  from run_loop_reachable [OF assms(1) l] have r: "reachable env s1" .
  show ?thesis
  proof (cases "running s1")
    case True
    with f r show ?thesis by simp
  next
    case False
    with f r show ?thesis by (auto intro: reachable.stopped)
  qed
qed



subsection \<open>Cancellation\<close>

lemma interrupted_after_run_loop:
  "interrupted_after env num_steps steps_completed s k s' \<Longrightarrow>
   run_loop env num_steps steps_completed s = (Inr k, s'\<lparr>running := False\<rparr>)
   \<and> steps_completed \<le> k \<and> k < num_steps"
proof (induction rule: interrupted_after.induct)
  case (now s steps_completed s')
  then show ?case
    by (simp add: run_loop.simps [of env num_steps steps_completed s]
                  run_loop.simps [of env num_steps steps_completed "s'\<lparr>running := False\<rparr>"])
next
  case (later s steps_completed u s1 k s')
  then show ?case by (simp add: run_loop.simps [of env num_steps steps_completed s])
qed

lemma interrupting_step_1:
  "fst (step interrupting_env (demo_agent 60)) = Inr ()"
  "running (snd (step interrupting_env (demo_agent 60)))"
  "length (trace (snd (step interrupting_env (demo_agent 60)))) = 9"
  by (simp_all add: demo_agent_eval eval_defs)

lemma interrupting_step_2:
  "fst (step interrupting_env (snd (step interrupting_env (demo_agent 60)))) =
     Inl KeyboardInterrupt"
  by (simp add: demo_agent_eval eval_defs)

text \<open>
  C8. When a pass of the loop of \<open>run(num_steps)\<close> raises \<open>KeyboardInterrupt\<close>
  after \<open>k\<close> completed passes, \<open>run\<close> clears \<open>running\<close>, calls \<open>emulator.stop()\<close>
  as its last call, and returns \<open>k\<close> (unless \<open>stop\<close> itself raises, which
  leaves \<open>run\<close>); and \<open>k\<close> lies between 0 and \<open>num_steps\<close>.
\<close>

theorem run_keyboard_interrupt:
  assumes "interrupted_after env num_steps 0 s k s'"
  shows "run env num_steps s =
           (case emulator_stop env (trace s') of Inl e \<Rightarrow> Inl e | Inr u \<Rightarrow> Inr k,
            s'\<lparr>running := False, trace := trace s' @ [Stop]\<rparr>)
       \<and> \<not> running (snd (run env num_steps s))
       \<and> last (trace (snd (run env num_steps s))) = Stop
       \<and> 0 \<le> k \<and> k \<le> num_steps"
proof -
  from interrupted_after_run_loop [OF assms]
  have l: "run_loop env num_steps 0 s = (Inr k, s'\<lparr>running := False\<rparr>)"
    and k: "0 \<le> k" "k < num_steps" by simp_all
  have "run env num_steps s =
           (case emulator_stop env (trace s') of Inl e \<Rightarrow> Inl e | Inr u \<Rightarrow> Inr k,
            s'\<lparr>running := False, trace := trace s' @ [Stop]\<rparr>)"
    using l by (simp add: run_def and_then_def call_def returns_def split: sum.splits)
  with k show ?thesis by simp
qed

theorem run_keyboard_interrupt_witness:
  "interrupted_after interrupting_env 3 0 (demo_agent 60) 1
     (snd (step interrupting_env (snd (step interrupting_env (demo_agent 60)))))
   \<and> fst (run interrupting_env 3 (demo_agent 60)) = Inr 1
   \<and> \<not> running (snd (run interrupting_env 3 (demo_agent 60)))
   \<and> last (trace (snd (run interrupting_env 3 (demo_agent 60)))) = Stop"
proof -
  let ?s1 = "snd (step interrupting_env (demo_agent 60))"
  let ?s2 = "snd (step interrupting_env ?s1)"
  have a: "step interrupting_env (demo_agent 60) = (Inr (), ?s1)"
    using interrupting_step_1(1) by (simp add: prod_eq_iff)
  have b: "step interrupting_env ?s1 = (Inl KeyboardInterrupt, ?s2)"
    using interrupting_step_2 by (simp add: prod_eq_iff)
  have "interrupted_after interrupting_env 3 (0 + 1) ?s1 (0 + 1) ?s2"
    by (rule interrupted_after.now [OF interrupting_step_1(2) _ b]) simp
  then have "interrupted_after interrupting_env 3 0 (demo_agent 60) (0 + 1) ?s2"
    by (rule interrupted_after.later [OF _ _ a, rotated 2]) (simp_all add: demo_agent_eval)
  then have h: "interrupted_after interrupting_env 3 0 (demo_agent 60) 1 ?s2" by simp
  from run_keyboard_interrupt [OF h] h show ?thesis by simp
qed

end
